theory Spec2Isabelle
  imports Complex_Main "HOL-Library.Sublist"
begin

section \<open>Data model of screen\_dynamics.py\<close>

text \<open>
  A pandas DataFrame is kept column by column: the row labels (guide ids) once, and each
  column as its name with one cell per row label. A cell of a count matrix is a number or
  the missing-value marker (numpy's NaN), written \<open>None\<close>. Finite floating-point values
  are read as exact reals. Where the rounding of a computation decides a result of the
  code (the percentile that is compared with the counts, the z-scoring of a series), the
  computation is an argument of the model and not a formula over the reals. Guide ids
  are unique in a matrix (the matrices are produced by \<open>pivot_table\<close>), so selecting
  rows by label is selecting rows by a test on the label.
\<close>

type_synonym cell = "real option"

record 'a frame =
  index :: "string list"
  cols :: "(string \<times> 'a list) list"

datatype py_error = IndexError | KeyError | UnboundLocalError | AttributeError

text \<open>
  Python's \<open>sub in s\<close> and pandas' \<open>index.str.contains(sub)\<close> for a pattern without
  regular-expression operators: \<open>sub\<close> occurs in \<open>s\<close> as a contiguous run.
\<close>

definition contains :: "string \<Rightarrow> string \<Rightarrow> bool" where
  "contains sub s = sublist sub s"

text \<open>\<open>index.str.contains("Essential|CTRL")\<close>: the regular expression is an alternation.\<close>

definition is_ctrl :: "string \<Rightarrow> bool" where
  "is_ctrl g = (contains ''Essential'' g \<or> contains ''CTRL'' g)"

subsection \<open>filter\_gRNAs\<close>

definition default_filter_out :: "string list" where
  "default_filter_out =
    [''CTRL00717'', ''CTRL00728'', ''CTRL00783'', ''CTRL00801'',
     ''CTRL00851'', ''CTRL00859'', ''CTRL00868'', ''CTRL00872'',
     ''CTRL00878'', ''CTRL00881'', ''CTRL00969'', ''CTRL00972'',
     ''CTRL00983''] @
    [''Essential_library_ABL1_1'', ''Essential_library_ABL1_2'', ''Essential_library_ABL1_3'',
     ''Essential_library_MAPK1_1'', ''Essential_library_MAPK1_2'', ''Essential_library_MAPK1_3'',
     ''Essential_library_GATA1_1'', ''Essential_library_GATA1_2'', ''Essential_library_GATA1_3'',
     ''Essential_library_BRCA2_1'', ''Essential_library_BRCA2_2'', ''Essential_library_BRCA2_3'',
     ''Essential_library_PARP1_1'', ''Essential_library_PARP1_2'', ''Essential_library_PARP1_3'']"

text \<open>Keep the rows whose label passes \<open>keep\<close> (\<open>df.ix[df.index[...]]\<close>).\<close>

definition select_rows :: "(string \<Rightarrow> bool) \<Rightarrow> 'a frame \<Rightarrow> 'a frame" where
  "select_rows keep df =
     \<lparr>index = filter keep (index df),
      cols = map (\<lambda>(n, cs). (n, map snd (filter (\<lambda>(g, v). keep g) (zip (index df) cs))))
                 (cols df)\<rparr>"

text \<open>\<open>df.loc[rows, col] = nan\<close> for the rows whose label passes \<open>hit\<close>, in one column.\<close>

definition mask_rows :: "(string \<Rightarrow> bool) \<Rightarrow> string list \<Rightarrow> cell list \<Rightarrow> cell list" where
  "mask_rows hit idx cs = map (\<lambda>(g, v). if hit g then None else v) (zip idx cs)"

text \<open>
  The loop over the columns (lines 48 to 54). The working matrix \<open>df\<close> loses the guides of
  the other sub-library; the copy \<open>filtered\<close> loses, in the same column, the guides of the
  column's own sub-library. The \<open>elif\<close> is only reached by names without "TCR" and "Jurkat".
\<close>

definition is_tcr_col :: "string \<Rightarrow> bool" where
  "is_tcr_col col = (contains ''TCR'' col \<or> contains ''Jurkat'' col)"

definition is_wnt_col :: "string \<Rightarrow> bool" where
  "is_wnt_col col = (contains ''WNT'' col \<or> contains ''HEK'' col)"

definition mask_opposite_df :: "string list \<Rightarrow> string \<times> cell list \<Rightarrow> string \<times> cell list" where
  "mask_opposite_df idx c =
     (case c of (col, cs) \<Rightarrow>
        if is_tcr_col col then (col, mask_rows (contains ''Wnt'') idx cs)
        else if is_wnt_col col then (col, mask_rows (contains ''Tcr'') idx cs)
        else (col, cs))"

definition mask_opposite_filtered :: "string list \<Rightarrow> string \<times> cell list \<Rightarrow> string \<times> cell list" where
  "mask_opposite_filtered idx c =
     (case c of (col, cs) \<Rightarrow>
        if is_tcr_col col then (col, mask_rows (contains ''Tcr'') idx cs)
        else if is_wnt_col col then (col, mask_rows (contains ''Wnt'') idx cs)
        else (col, cs))"

text \<open>\<open>df.drop("plasmid_pool_ESS", axis=1)\<close>, guarded by the membership test of line 56.\<close>

definition drop_ess :: "'a frame \<Rightarrow> 'a frame" where
  "drop_ess df =
     (if ''plasmid_pool_ESS'' \<in> set (map fst (cols df))
      then df\<lparr>cols := filter (\<lambda>(n, cs). n \<noteq> ''plasmid_pool_ESS'') (cols df)\<rparr>
      else df)"

text \<open>
  The working matrix as it stands before line 60: rows of the filter-out list removed
  (line 41), the other sub-library masked, the column "plasmid\_pool\_ESS" dropped.
\<close>

definition working :: "cell frame \<Rightarrow> string list \<Rightarrow> cell frame" where
  "working df filter_out =
     (let d = select_rows (\<lambda>g. g \<notin> set filter_out) df
      in drop_ess (d\<lparr>cols := map (mask_opposite_df (index d)) (cols d)\<rparr>))"

text \<open>
  The reference matrix \<open>filtered\<close> before line 60: a copy of the input in which the
  control guides that are not in the filter-out list are masked in every column (lines 43
  to 45), then the loop's masking and the column drop.
\<close>

definition reference :: "cell frame \<Rightarrow> string list \<Rightarrow> cell frame" where
  "reference df filter_out =
     (let f = df\<lparr>cols := map (\<lambda>(n, cs).
                  (n, mask_rows (\<lambda>g. is_ctrl g \<and> g \<notin> set filter_out) (index df) cs)) (cols df)\<rparr>
      in drop_ess (f\<lparr>cols := map (mask_opposite_filtered (index f)) (cols f)\<rparr>))"

text \<open>
  \<open>x[~np.isnan(x)]\<close> over all the cells of a matrix. The numbers are listed column
  by column here and row by row in the code; the only use of the list sorts it first.
\<close>

definition defined_values :: "cell frame \<Rightarrow> real list" where
  "defined_values df = concat (map (\<lambda>(n, cs). concat (map (\<lambda>v. case v of None \<Rightarrow> [] | Some x \<Rightarrow> [x]) cs)) (cols df))"

text \<open>
  \<open>np.percentile(a, q)\<close> with numpy's default linear interpolation, on a non-empty
  array. numpy sorts the array, computes the position \<open>q / 100 * (n - 1)\<close>, takes its
  floor \<open>below\<close>, the next place \<open>above\<close> (not beyond the last) and the fraction
  \<open>pos - below\<close>, and interpolates between the two neighbours with that fraction as
  weight. All of this is float64 arithmetic, and the rounding is not the same in all numpy
  versions for the interpolation, so two arguments stand for it: \<open>rnd\<close> is the rounding
  of the result of one arithmetic operation to float64, and \<open>lerp a b t\<close> is numpy's
  interpolation between the neighbours \<open>a\<close> and \<open>b\<close> with weight \<open>t\<close> for \<open>b\<close>.
  With float64 rounding the position is never beyond the last place; the \<open>min\<close> in
  \<open>below\<close> only keeps the model inside the array for other \<open>rnd\<close>.
\<close>

definition percentile_float :: "(real \<Rightarrow> real) \<Rightarrow> (real \<Rightarrow> real \<Rightarrow> real \<Rightarrow> real) \<Rightarrow> real list \<Rightarrow> real \<Rightarrow> real" where
  "percentile_float rnd lerp a q =
     (let s = sort a;
          n = length s;
          pos = rnd (rnd (q / 100) * real (n - 1));
          below = min (nat \<lfloor>pos\<rfloor>) (n - 1);
          above = min (below + 1) (n - 1)
      in lerp (s ! below) (s ! above) (rnd (pos - real below)))"

text \<open>
  What numpy does on an empty array is not defined by this repository and differs between
  numpy versions (an exception in some, NaN in others), so that outcome is an argument
  \<open>on_empty\<close> of the model.
\<close>

definition np_percentile :: "(real \<Rightarrow> real) \<Rightarrow> (real \<Rightarrow> real \<Rightarrow> real \<Rightarrow> real) \<Rightarrow> py_error + cell \<Rightarrow> real list \<Rightarrow> real \<Rightarrow> py_error + cell" where
  "np_percentile rnd lerp on_empty a q =
     (if a = [] then on_empty else Inr (Some (percentile_float rnd lerp a q)))"

text \<open>
  \<open>df.where(df > lower_bound, nan)\<close>: a cell is kept when it is strictly greater than the
  bound; a comparison with NaN on either side is false.
\<close>

definition above_bound :: "cell \<Rightarrow> cell \<Rightarrow> cell" where
  "above_bound lower_bound v =
     (case (v, lower_bound) of
        (Some x, Some b) \<Rightarrow> if x > b then Some x else None
      | _ \<Rightarrow> None)"

definition where_above :: "cell \<Rightarrow> cell frame \<Rightarrow> cell frame" where
  "where_above lower_bound df =
     df\<lparr>cols := map (\<lambda>(n, cs). (n, map (above_bound lower_bound) cs)) (cols df)\<rparr>"

text \<open>
  The function itself. The plot it draws on the way is not modelled; the value it returns
  is.
\<close>

definition filter_gRNAs :: "(real \<Rightarrow> real) \<Rightarrow> (real \<Rightarrow> real \<Rightarrow> real \<Rightarrow> real) \<Rightarrow> py_error + cell \<Rightarrow> cell frame \<Rightarrow> string list \<Rightarrow> py_error + cell frame" where
  "filter_gRNAs rnd lerp on_empty df filter_out =
     (case np_percentile rnd lerp on_empty (defined_values (reference df filter_out)) 95 of
        Inl e \<Rightarrow> Inl e
      | Inr lower_bound \<Rightarrow> Inr (where_above lower_bound (working df filter_out)))"

subsection \<open>Normalisation\<close>

text \<open>
  The result of a floating-point division: a finite number, an infinity or NaN. Finite
  results are exact reals; signed zeros are not kept apart, and the one place where the
  sign of a zero decides a result is written out (\<open>efficiency\<close> below).
\<close>

datatype fval = Fin real | PInf | NInf | NaN

text \<open>\<open>x / y\<close> for two finite numbers; numpy and pandas do not raise on a zero divisor.\<close>

definition fdiv :: "real \<Rightarrow> real \<Rightarrow> fval" where
  "fdiv x y =
     (if y \<noteq> 0 then Fin (x / y)
      else if x > 0 then PInf
      else if x < 0 then NInf
      else NaN)"

text \<open>\<open>v * k\<close> for a finite constant \<open>k > 0\<close>.\<close>

definition fscale :: "fval \<Rightarrow> real \<Rightarrow> fval" where
  "fscale v k = (case v of Fin x \<Rightarrow> Fin (x * k) | PInf \<Rightarrow> PInf | NInf \<Rightarrow> NInf | NaN \<Rightarrow> NaN)"

text \<open>
  \<open>x.sum()\<close> of a column: missing cells are skipped (\<open>skipna\<close> is pandas' default, and
  lines 415 to 421 pass it explicitly). A column without any number sums to 0 here; older
  pandas versions give NaN, which yields the same cells, since every cell of such a column
  is NaN before the division.
\<close>

definition column_sum :: "cell list \<Rightarrow> real" where
  "column_sum cs = sum_list (map (\<lambda>v. case v of None \<Rightarrow> 0 | Some x \<Rightarrow> x) cs)"

text \<open>\<open>lambda x: (x / x.sum()) * 1e4\<close>\<close>

definition normalize_column :: "cell list \<Rightarrow> fval list" where
  "normalize_column cs =
     (let s = column_sum cs
      in map (\<lambda>v. case v of None \<Rightarrow> NaN | Some x \<Rightarrow> fscale (fdiv x s) 10000) cs)"

text \<open>
  \<open>df.apply(..., axis=0)\<close>: column by column. Lines 415, 418 and 421 apply the same
  lambda to the three filtered matrices.
\<close>

definition normalize_by_total :: "cell frame \<Rightarrow> fval frame" where
  "normalize_by_total df =
     \<lparr>index = index df, cols = map (\<lambda>(n, cs). (n, normalize_column cs)) (cols df)\<rparr>"

text \<open>The finite cells of a normalised column, for summing them.\<close>

definition finite_values :: "fval list \<Rightarrow> real list" where
  "finite_values vs = concat (map (\<lambda>v. case v of Fin x \<Rightarrow> [x] | _ \<Rightarrow> []) vs)"

subsection \<open>screen\_zscore\<close>

text \<open>
  A series is a column after \<open>dropna()\<close>: guide ids with finite values. \<open>np.mean\<close> and
  \<open>np.std\<close> of a non-empty series are the mean and the population standard deviation
  (\<open>ddof = 0\<close>).
\<close>

type_synonym series = "(string \<times> real) list"

definition mean :: "real list \<Rightarrow> real" where
  "mean xs = sum_list xs / real (length xs)"

definition sum_sq_dev :: "real list \<Rightarrow> real" where
  "sum_sq_dev xs = sum_list (map (\<lambda>x. (x - mean xs)\<^sup>2) xs)"

definition np_std :: "real list \<Rightarrow> real" where
  "np_std xs = sqrt (sum_sq_dev xs / real (length xs))"

text \<open>\<open>1 - q\<close> for the result of a division.\<close>

definition one_minus :: "fval \<Rightarrow> fval" where
  "one_minus q = (case q of Fin x \<Rightarrow> Fin (1 - x) | PInf \<Rightarrow> NInf | NInf \<Rightarrow> PInf | NaN \<Rightarrow> NaN)"

text \<open>
  The lambda \<open>Z\<close> of line 94. The mean and the standard deviation of an empty selection
  are NaN, and so is the score then.
\<close>

definition Z :: "real list \<Rightarrow> real list \<Rightarrow> fval" where
  "Z pos neg =
     (if pos = [] \<or> neg = [] then NaN
      else one_minus (fdiv (3 * (np_std pos + np_std neg)) \<bar>mean pos - mean neg\<bar>))"

text \<open>\<open>series.ix[series.index[series.index.str.contains(pat)]]\<close>, as the list of values.\<close>

definition select :: "string \<Rightarrow> series \<Rightarrow> real list" where
  "select pat s = map snd (filter (\<lambda>(g, v). contains pat g) s)"

text \<open>
  With \<open>z_score\<close> line 97 first replaces the series by
  \<open>(series - series.mean()) / series.std()\<close>. That is a floating-point computation whose
  rounding is not modelled: its outcome is the argument \<open>zscored\<close>. \<open>zscored s\<close> is
  the series after line 97 when its values are finite numbers, and \<open>None\<close> when they
  are not: the series then has fewer than two values or a standard deviation of zero,
  every value is NaN or infinite, and the score is NaN, because \<open>np.mean\<close> of a selection
  without numbers and \<open>np.std\<close> of a selection with an infinite value are NaN. The
  script calls the function without \<open>z_score\<close>.
\<close>

definition screen_zscore :: "(series \<Rightarrow> series option) \<Rightarrow> series \<Rightarrow> bool \<Rightarrow> fval" where
  "screen_zscore zscored s z_score =
     (if z_score then
        (case zscored s of
           None \<Rightarrow> NaN
         | Some s' \<Rightarrow> Z (select ''Essential'' s') (select ''CTRL'' s'))
      else Z (select ''Essential'' s) (select ''CTRL'' s))"

text \<open>
  \<open>1 / -z\<close> of line 471. A score that is zero is the positive zero \<open>1 - 1\<close>, its
  negation the negative zero, and the quotient minus infinity.
\<close>

definition efficiency :: "fval \<Rightarrow> fval" where
  "efficiency z =
     (case z of
        Fin x \<Rightarrow> if x = 0 then NInf else Fin (1 / - x)
      | PInf \<Rightarrow> Fin 0
      | NInf \<Rightarrow> Fin 0
      | NaN \<Rightarrow> NaN)"

text \<open>One row of the summary (lines 457 to 471): stage, sample, score, efficiency.\<close>

definition zez_row :: "(series \<Rightarrow> series option) \<Rightarrow> string \<Rightarrow> string \<Rightarrow> series \<Rightarrow> string \<times> string \<times> fval \<times> fval" where
  "zez_row zscored name col s =
     (let z = screen_zscore zscored s False in (name, col, z, efficiency z))"

subsection \<open>The comparator: row order, branches, colours, ranks\<close>

text \<open>
  gRNA\_scatter, gRNA\_maplot and gRNA\_rank run the same loop over the columns of the
  second matrix (the screens). Each pass joins the two matrices, shuffles the rows, runs
  the branch code for the screen, computes the colours and plots. The joined table is
  given to the model by its column names and its guide ids (for gRNA\_rank with the
  fold-change of each row); the plots are not modelled.
\<close>

text \<open>
  \<open>x.iloc[np.random.permutation(len(x))]\<close>: the rows in the order of a permutation of
  their positions. The permutation is drawn at random by the code; it is an argument here.
\<close>

definition iloc :: "nat list \<Rightarrow> 'a list \<Rightarrow> 'a list" where
  "iloc perm xs = map (\<lambda>i. xs ! i) perm"

definition is_permutation :: "nat list \<Rightarrow> nat \<Rightarrow> bool" where
  "is_permutation perm n = (distinct perm \<and> set perm = {0..<n})"

text \<open>
  The rows a pass keeps (lines 125 to 143, 176 to 200 and 237 to 255 have the same
  tests): inside a branch of the outer test the inner tests are successive \<open>if\<close>s.
\<close>

definition keep_row :: "string \<Rightarrow> string \<Rightarrow> string \<Rightarrow> bool" where
  "keep_row pfx screen g =
     (if contains ''original'' pfx then
        (contains ''TCR'' screen \<longrightarrow> \<not> contains ''Wnt'' g) \<and>
        (contains ''WNT'' screen \<longrightarrow> \<not> contains ''Tcr'' g)
      else if \<not> contains ''plasmid'' pfx then
        (contains ''TCR'' screen \<longrightarrow> \<not> contains ''Wnt'' g) \<and>
        (contains ''_4_WNT'' screen \<longrightarrow> \<not> contains ''Tcr'' g) \<and>
        (contains ''_6_WNT'' screen \<longrightarrow> \<not> contains ''Tcr'' g)
      else True)"

text \<open>
  The reference columns a pass reads, in the order of the reads. Each inner branch that
  is taken reads one column of the joined table, which raises KeyError when the table has
  no column of that name, and assigns the variables that the rest of the pass uses
  (\<open>b\<close> in gRNA\_scatter, \<open>M\<close> and \<open>fc\<close> in gRNA\_maplot, \<open>fc\<close> in gRNA\_rank).
  The last branch of the outer test reads the column labelled 0, written \<open>''0''\<close>. When
  no branch is taken, the variables keep the values of the pass before, or are unbound in
  the first pass.
\<close>

definition reference_columns :: "string \<Rightarrow> string \<Rightarrow> string list" where
  "reference_columns pfx screen =
     (if contains ''original'' pfx then
        (if contains ''TCR'' screen then [''plasmid_pool_TCR''] else []) @
        (if contains ''WNT'' screen then [''plasmid_pool_WNT''] else [])
      else if \<not> contains ''plasmid'' pfx then
        (if contains ''TCR'' screen then [''gDNA_Jurkat''] else []) @
        (if contains ''_4_WNT'' screen then [''gDNA_HEKclone4''] else []) @
        (if contains ''_6_WNT'' screen then [''gDNA_HEKclone6''] else [])
      else [''0''])"

text \<open>
  The colours (lines 145 to 150, 208 to 213, 263 to 268): four boolean columns named by
  the first four colours of the palette, in this order, and per row the name of the first
  column that is true. \<open>[0]\<close> on an empty list raises IndexError. On a table without
  rows \<open>apply\<close> returns a DataFrame, which has no \<open>tolist\<close>: AttributeError.
\<close>

datatype color = Color0 | Color1 | Color2 | Color3

definition color_flags :: "string \<Rightarrow> (color \<times> bool) list" where
  "color_flags g =
     [(Color0, contains ''Wnt'' g), (Color1, contains ''CTRL'' g),
      (Color2, contains ''Tcr'' g), (Color3, contains ''Ess'' g)]"

definition color_of :: "string \<Rightarrow> py_error + color" where
  "color_of g =
     (case map fst (filter snd (color_flags g)) of
        [] \<Rightarrow> Inl IndexError
      | c # _ \<Rightarrow> Inr c)"

fun apply_rows :: "('a \<Rightarrow> py_error + 'b) \<Rightarrow> 'a list \<Rightarrow> py_error + 'b list" where
  "apply_rows f [] = Inr []"
| "apply_rows f (x # xs) =
     (case f x of
        Inl e \<Rightarrow> Inl e
      | Inr y \<Rightarrow> (case apply_rows f xs of Inl e \<Rightarrow> Inl e | Inr ys \<Rightarrow> Inr (y # ys)))"

definition assign_colors :: "string list \<Rightarrow> py_error + color list" where
  "assign_colors idx = (if idx = [] then Inl AttributeError else apply_rows color_of idx)"

text \<open>
  \<open>fc.rank(ascending=False, method="first")\<close>, pandas' ranking: the largest value gets
  rank 1, equal values are ranked in the order in which they stand in the series, and a
  missing value has no rank and is not counted.
\<close>

definition defined :: "cell list \<Rightarrow> real list" where
  "defined cs = concat (map (\<lambda>v. case v of None \<Rightarrow> [] | Some x \<Rightarrow> [x]) cs)"

definition rank_at :: "cell list \<Rightarrow> nat \<Rightarrow> nat option" where
  "rank_at fc i =
     (case fc ! i of
        None \<Rightarrow> None
      | Some v \<Rightarrow> Some (1 + length (filter (\<lambda>w. w > v) (defined fc))
                        + length (filter (\<lambda>w. w = v) (defined (take i fc)))))"

definition rank_desc_first :: "cell list \<Rightarrow> nat option list" where
  "rank_desc_first fc = map (rank_at fc) [0..<length fc]"

text \<open>
  One pass of gRNA\_scatter (lines 122 to 152) for the screen at place \<open>i\<close> of the loop.
  The colours are computed before \<open>b\<close> is used; \<open>axis\<close> has six plots, and
  \<open>axis[i]\<close> is evaluated before the arguments of \<open>scatter\<close>. \<open>b_bound\<close> says
  whether an earlier pass assigned \<open>b\<close>.
\<close>

definition gRNA_scatter_screen :: "nat \<Rightarrow> nat list \<Rightarrow> string list \<Rightarrow> bool \<Rightarrow> string \<Rightarrow> string \<Rightarrow> string list \<Rightarrow> py_error + color list" where
  "gRNA_scatter_screen i perm columns b_bound pfx screen idx =
     (let x = filter (keep_row pfx screen) (iloc perm idx)
      in if \<not> set (reference_columns pfx screen) \<subseteq> set columns then Inl KeyError
         else case assign_colors x of
                Inl e \<Rightarrow> Inl e
              | Inr colors \<Rightarrow>
                  if 6 \<le> i then Inl IndexError
                  else if reference_columns pfx screen = [] \<and> \<not> b_bound
                  then Inl UnboundLocalError
                  else Inr colors)"

text \<open>
  One pass of gRNA\_maplot (lines 173 to 215). \<open>fc.name = screen\<close> (line 202) comes
  before the colours and needs \<open>fc\<close>; \<open>fc_bound\<close> says whether an earlier pass assigned
  it.
\<close>

definition gRNA_maplot_screen :: "nat \<Rightarrow> nat list \<Rightarrow> string list \<Rightarrow> bool \<Rightarrow> string \<Rightarrow> string \<Rightarrow> string list \<Rightarrow> py_error + color list" where
  "gRNA_maplot_screen i perm columns fc_bound pfx screen idx =
     (let x = filter (keep_row pfx screen) (iloc perm idx)
      in if \<not> set (reference_columns pfx screen) \<subseteq> set columns then Inl KeyError
         else if reference_columns pfx screen = [] \<and> \<not> fc_bound then Inl UnboundLocalError
         else case assign_colors x of
                Inl e \<Rightarrow> Inl e
              | Inr colors \<Rightarrow> if 6 \<le> i then Inl IndexError else Inr colors)"

text \<open>
  One pass of gRNA\_rank (lines 234 to 270). A row of the joined table is given as its
  guide id and its fold-change for this screen, which a branch computes row by row after
  the shuffle and the row selection. \<open>fc\<close> is the series of the kept rows when a branch
  is taken and the series \<open>fc_prev\<close> of the pass before otherwise. The ranks are
  computed last, from \<open>fc\<close>, and only when the colours were assigned.
\<close>

definition gRNA_rank_screen :: "nat \<Rightarrow> nat list \<Rightarrow> string list \<Rightarrow> (string \<times> cell) list option \<Rightarrow> string \<Rightarrow> string \<Rightarrow> (string \<times> cell) list \<Rightarrow> py_error + (color list \<times> (string \<times> nat option) list)" where
  "gRNA_rank_screen i perm columns fc_prev pfx screen joined =
     (let x = filter (\<lambda>(g, v). keep_row pfx screen g) (iloc perm joined)
      in if \<not> set (reference_columns pfx screen) \<subseteq> set columns then Inl KeyError
         else case (if reference_columns pfx screen = [] then fc_prev else Some x) of
                None \<Rightarrow> Inl UnboundLocalError
              | Some fc \<Rightarrow>
                  (case assign_colors (map fst x) of
                     Inl e \<Rightarrow> Inl e
                   | Inr colors \<Rightarrow>
                       if 6 \<le> i then Inl IndexError
                       else Inr (colors, zip (map fst fc) (rank_desc_first (map snd fc)))))"

text \<open>
  The loops (lines 121, 172 and 233): the passes in order, with the place \<open>i\<close> and the
  state left by the pass before; the first failure ends the run. The screens are listed
  as the loop visits them (the columns of the second matrix in reverse order), each with
  the permutation drawn in its pass, and for gRNA\_rank with the rows of the joined
  table and their fold-changes for that screen.
\<close>

fun for_screens :: "(nat \<Rightarrow> 's \<Rightarrow> 'a \<Rightarrow> py_error + ('b \<times> 's)) \<Rightarrow> nat \<Rightarrow> 's \<Rightarrow> 'a list \<Rightarrow> py_error + 'b list" where
  "for_screens body i st [] = Inr []"
| "for_screens body i st (a # as) =
     (case body i st a of
        Inl e \<Rightarrow> Inl e
      | Inr (b, st') \<Rightarrow>
          (case for_screens body (Suc i) st' as of
             Inl e \<Rightarrow> Inl e
           | Inr bs \<Rightarrow> Inr (b # bs)))"

definition gRNA_scatter :: "string list \<Rightarrow> string \<Rightarrow> string list \<Rightarrow> (string \<times> nat list) list \<Rightarrow> py_error + color list list" where
  "gRNA_scatter columns pfx idx screens =
     for_screens
       (\<lambda>i b_bound (screen, perm).
          case gRNA_scatter_screen i perm columns b_bound pfx screen idx of
            Inl e \<Rightarrow> Inl e
          | Inr colors \<Rightarrow> Inr (colors, True))
       0 False screens"

definition gRNA_maplot :: "string list \<Rightarrow> string \<Rightarrow> string list \<Rightarrow> (string \<times> nat list) list \<Rightarrow> py_error + color list list" where
  "gRNA_maplot columns pfx idx screens =
     for_screens
       (\<lambda>i fc_bound (screen, perm).
          case gRNA_maplot_screen i perm columns fc_bound pfx screen idx of
            Inl e \<Rightarrow> Inl e
          | Inr colors \<Rightarrow> Inr (colors, True))
       0 False screens"

definition gRNA_rank :: "string list \<Rightarrow> string \<Rightarrow> (string \<times> nat list \<times> (string \<times> cell) list) list \<Rightarrow> py_error + (color list \<times> (string \<times> nat option) list) list" where
  "gRNA_rank columns pfx screens =
     for_screens
       (\<lambda>i fc_prev (screen, perm, joined).
          case gRNA_rank_screen i perm columns fc_prev pfx screen joined of
            Inl e \<Rightarrow> Inl e
          | Inr r \<Rightarrow>
              Inr (r, if reference_columns pfx screen = [] then fc_prev
                      else Some (filter (\<lambda>(g, v). keep_row pfx screen g) (iloc perm joined))))
       0 None screens"

text \<open>
  The category assignment as a specification, to compare the colour code with: a guide
  has a category when one of the four patterns occurs in its id, and its category is the
  first pattern that occurs, in the order "Wnt", "CTRL", "Tcr", "Ess".
\<close>

definition has_category :: "string \<Rightarrow> bool" where
  "has_category g =
     (contains ''Wnt'' g \<or> contains ''CTRL'' g \<or> contains ''Tcr'' g \<or> contains ''Ess'' g)"

definition first_category :: "string \<Rightarrow> color" where
  "first_category g =
     (if contains ''Wnt'' g then Color0
      else if contains ''CTRL'' g then Color1
      else if contains ''Tcr'' g then Color2
      else Color3)"

section \<open>Example inputs\<close>

text \<open>
  Small matrices, series and joined tables on which the functions are evaluated below.
  For the two arguments that stand for numpy's floating-point arithmetic the examples
  take the exact operations: no rounding, and the interpolation \<open>a + (b - a) * t\<close>.
  The matrices that the examples return are the same with float64 rounding: with one and
  with 21 reference counts the position is a whole number in float64 too and the
  percentile is one of the counts, and with three reference counts the percentile is 6.6
  up to rounding, compared with the counts 8, 9 and 50.
\<close>

definition no_rounding :: "real \<Rightarrow> real" where
  "no_rounding x = x"

definition linear :: "real \<Rightarrow> real \<Rightarrow> real \<Rightarrow> real" where
  "linear a b t = a + (b - a) * t"

definition c9_df :: "cell frame" where
  "c9_df = \<lparr>index = [''CTRL00717'', ''Tcr_CD3E_1''],
            cols = [(''plasmid_pool_ESS'', [Some 4, Some 1]),
                    (''plasmid_pool_TCR'', [Some 6, Some 90])]\<rparr>"

definition c1_df :: "cell frame" where
  "c1_df = \<lparr>index = [''Wnt_CTNNB1_1'', ''Tcr_CD3E_1''],
            cols = [(''Jurkat_TCR_stimulated'', [Some 3, Some 9]),
                    (''WNT_TCR_mix'', [Some 2, Some 8]),
                    (''HEK293T_4_WNT'', [Some 50, Some 7])]\<rparr>"

definition c1_out :: "cell frame" where
  "c1_out = \<lparr>index = [''Wnt_CTNNB1_1'', ''Tcr_CD3E_1''],
             cols = [(''Jurkat_TCR_stimulated'', [None, Some 9]),
                     (''WNT_TCR_mix'', [None, Some 8]),
                     (''HEK293T_4_WNT'', [Some 50, None])]\<rparr>"

definition c2_df :: "cell frame" where
  "c2_df =
     \<lparr>index = [''CTRL00717'', ''Tcr_CD3E_1'', ''CTRL00728'', ''CTRL00783'', ''CTRL00801'',
               ''Tcr_CD3E_2'', ''CTRL00851'', ''CTRL00859'', ''CTRL00868'', ''CTRL00872'',
               ''CTRL00001'', ''CTRL00878'', ''CTRL00881'', ''CTRL00969'', ''CTRL00972'',
               ''CTRL00983'', ''Tcr_LCK_1'',
               ''Essential_library_ABL1_1'', ''Essential_library_ABL1_2'',
               ''Essential_library_ABL1_3'', ''Essential_library_MAPK1_1'',
               ''Essential_library_MAPK1_2'', ''Essential_library_MAPK1_3'',
               ''Essential_library_GATA1_1'', ''Essential_library_GATA1_2''],
      cols = [(''CROP-seq_Jurkat_TCR_stimulated'',
               [Some 8, Some 50, Some 50, Some 75, Some 2,
                Some 51, Some 14, Some 4, Some 30, Some 6,
                Some 300, Some 22, Some 10, Some 38, Some 12,
                Some 16, Some 500,
                Some 18, Some 36,
                Some 20, Some 34,
                Some 24, Some 32,
                Some 26, Some 28])]\<rparr>"

definition c3_df :: "cell frame" where
  "c3_df = \<lparr>index = [''Tcr_CD3E_1'', ''Tcr_LCK_1'', ''CTRL00001''],
            cols = [(''Jurkat_TCR_unstimulated'', [Some 30, None, Some 10])]\<rparr>"

definition c5_df :: "cell frame" where
  "c5_df = \<lparr>index = [''Tcr_CD3E_1'', ''CTRL00001''],
            cols = [(''Jurkat_TCR_unstimulated'', [Some 0, Some 0]),
                    (''Jurkat_TCR_stimulated'', [None, None])]\<rparr>"

definition c5_neg :: "cell frame" where
  "c5_neg = \<lparr>index = [''Tcr_CD3E_1'', ''Tcr_LCK_1'', ''CTRL00001''],
             cols = [(''Jurkat_TCR_unstimulated'', [Some 2, Some (- 2), None])]\<rparr>"

definition c4_series :: series where
  "c4_series = [(''Essential_library_RPL3_1'', 1), (''Tcr_CD3E_1'', 40),
                (''Essential_library_RPL3_2'', 3), (''CTRL00001'', 10), (''CTRL00002'', 14)]"

definition c10_idx :: "string list" where
  "c10_idx = [''Tcr_CD3E_1'', ''MBD1_sg1'', ''CTRL00001'']"

definition c10_ok :: "string list" where
  "c10_ok = [''Tcr_CD3E_1'', ''Essential_library_CTRL_mix'', ''CTRL00001'']"

definition c10_columns :: "string list" where
  "c10_columns = [''gDNA_HEKclone4'', ''gDNA_HEKclone6'', ''gDNA_Jurkat'',
                  ''CROP-seq_HEK293T_4_WNT_stimulated'', ''CROP-seq_Jurkat_TCR_stimulated'']"




section \<open>Properties\<close>

subsection \<open>Evaluation of the string tests\<close>

lemmas str_eval = contains_def sublist_code prefix_code is_ctrl_def is_tcr_col_def is_wnt_col_def

subsection \<open>Column names and row labels through filter\_gRNAs\<close>

lemma names_drop_ess:
  "map fst (cols (drop_ess df)) = filter (\<lambda>n. n \<noteq> ''plasmid_pool_ESS'') (map fst (cols df))"
proof (cases "''plasmid_pool_ESS'' \<in> set (map fst (cols df))")
  case True
  then show ?thesis
    by (simp add: drop_ess_def filter_map o_def case_prod_unfold)
next
  case False
  then have "filter (\<lambda>n. n \<noteq> ''plasmid_pool_ESS'') (map fst (cols df)) = map fst (cols df)"
    by (intro filter_True) force
  with False show ?thesis by (simp add: drop_ess_def)
qed

lemma index_drop_ess: "index (drop_ess df) = index df"
  by (simp add: drop_ess_def)

lemma fst_mask_opposite_df: "fst (mask_opposite_df idx c) = fst c"
  by (cases c) (simp add: mask_opposite_df_def)

lemma fst_mask_opposite_filtered: "fst (mask_opposite_filtered idx c) = fst c"
  by (cases c) (simp add: mask_opposite_filtered_def)

lemma names_working:
  "map fst (cols (working df fo)) = filter (\<lambda>n. n \<noteq> ''plasmid_pool_ESS'') (map fst (cols df))"
  by (simp add: working_def Let_def names_drop_ess select_rows_def o_def
      fst_mask_opposite_df case_prod_unfold)

lemma names_reference:
  "map fst (cols (reference df fo)) = filter (\<lambda>n. n \<noteq> ''plasmid_pool_ESS'') (map fst (cols df))"
  by (simp add: reference_def Let_def names_drop_ess o_def
      fst_mask_opposite_filtered case_prod_unfold)

lemma names_where_above: "map fst (cols (where_above b df)) = map fst (cols df)"
  by (simp add: where_above_def o_def case_prod_unfold)

lemma index_where_above: "index (where_above b df) = index df"
  by (simp add: where_above_def)

lemma filter_gRNAs_Inr:
  "filter_gRNAs rnd lerp oe df fo = Inr out \<Longrightarrow>
     \<exists>b. np_percentile rnd lerp oe (defined_values (reference df fo)) 95 = Inr b \<and>
         out = where_above b (working df fo)"
  by (auto simp: filter_gRNAs_def split: sum.splits)

lemma filter_gRNAs_nonempty:
  "defined_values (reference df fo) \<noteq> [] \<Longrightarrow>
     filter_gRNAs rnd lerp oe df fo =
       Inr (where_above (Some (percentile_float rnd lerp (defined_values (reference df fo)) 95))
              (working df fo))"
  by (simp add: filter_gRNAs_def np_percentile_def)

lemma percentile_float_single: "percentile_float no_rounding linear [x] q = x"
  by (simp add: percentile_float_def no_rounding_def linear_def)

lemma c9_reference: "reference c9_df default_filter_out =
   \<lparr>index = [''CTRL00717'', ''Tcr_CD3E_1''], cols = [(''plasmid_pool_TCR'', [Some 6, None])]\<rparr>"
  by (simp add: reference_def c9_df_def default_filter_out_def drop_ess_def
      mask_opposite_filtered_def mask_rows_def str_eval)

lemma c9_working: "working c9_df default_filter_out =
   \<lparr>index = [''Tcr_CD3E_1''], cols = [(''plasmid_pool_TCR'', [Some 90])]\<rparr>"
  by (simp add: working_def c9_df_def default_filter_out_def drop_ess_def
      mask_opposite_df_def mask_rows_def str_eval select_rows_def)

text \<open>
  C9. filter\_gRNAs removes the column "plasmid\_pool\_ESS" from the working and from the
  reference matrix when the input has it, and keeps every other column name, in order;
  the returned matrix can so have fewer columns than the input. The function returns
  whenever the reference matrix holds a number.
\<close>

theorem filter_gRNAs_drops_plasmid_pool_ESS:
  "(defined_values (reference df fo) \<noteq> [] \<longrightarrow> (\<exists>out. filter_gRNAs rnd lerp oe df fo = Inr out)) \<and>
   (\<forall>out. filter_gRNAs rnd lerp oe df fo = Inr out \<longrightarrow>
      map fst (cols out) = filter (\<lambda>n. n \<noteq> ''plasmid_pool_ESS'') (map fst (cols df))) \<and>
   map fst (cols (reference df fo)) = filter (\<lambda>n. n \<noteq> ''plasmid_pool_ESS'') (map fst (cols df))"
proof (intro conjI allI impI)
  assume "defined_values (reference df fo) \<noteq> []"
  then show "\<exists>out. filter_gRNAs rnd lerp oe df fo = Inr out"
    by (simp add: filter_gRNAs_nonempty)
next
  fix out
  assume "filter_gRNAs rnd lerp oe df fo = Inr out"
  then obtain b where "out = where_above b (working df fo)"
    using filter_gRNAs_Inr by blast
  then show "map fst (cols out) = filter (\<lambda>n. n \<noteq> ''plasmid_pool_ESS'') (map fst (cols df))"
    by (simp add: names_where_above names_working)
next
  show "map fst (cols (reference df fo)) = filter (\<lambda>n. n \<noteq> ''plasmid_pool_ESS'') (map fst (cols df))"
    by (rule names_reference)
qed

theorem filter_gRNAs_drops_plasmid_pool_ESS_witness:
  "defined_values (reference c9_df default_filter_out) \<noteq> [] \<and>
   filter_gRNAs no_rounding linear (Inl IndexError) c9_df default_filter_out =
     Inr \<lparr>index = [''Tcr_CD3E_1''], cols = [(''plasmid_pool_TCR'', [Some 90])]\<rparr> \<and>
   map fst (cols c9_df) = [''plasmid_pool_ESS'', ''plasmid_pool_TCR''] \<and>
   map fst (cols (reference c9_df default_filter_out)) = [''plasmid_pool_TCR'']"
proof -
  have ne: "defined_values (reference c9_df default_filter_out) \<noteq> []"
    by (simp add: c9_reference defined_values_def)
  have v: "defined_values (reference c9_df default_filter_out) = [6]"
    by (simp add: c9_reference defined_values_def)
  have r: "filter_gRNAs no_rounding linear (Inl IndexError) c9_df default_filter_out =
     Inr \<lparr>index = [''Tcr_CD3E_1''], cols = [(''plasmid_pool_TCR'', [Some 90])]\<rparr>"
    by (simp add: filter_gRNAs_nonempty [OF ne] v percentile_float_single c9_working
        where_above_def above_bound_def)
  have n: "map fst (cols c9_df) = [''plasmid_pool_ESS'', ''plasmid_pool_TCR'']"
    by (simp add: c9_df_def)
  from filter_gRNAs_drops_plasmid_pool_ESS
         [of c9_df default_filter_out no_rounding linear "Inl IndexError"] ne r n
  show ?thesis by simp
qed

subsection \<open>The masking of the sub-libraries\<close>

lemma zip_mask_rows:
  "(g, v) \<in> set (zip idx (mask_rows hit idx cs)) \<Longrightarrow> hit g \<Longrightarrow> v = None"
  by (auto simp: mask_rows_def set_zip)

lemma zip_mask_rows_sub:
  "(g, v) \<in> set (zip idx (mask_rows hit idx cs)) \<Longrightarrow> v = None \<or> (g, v) \<in> set (zip idx cs)"
  by (auto simp: mask_rows_def set_zip)

lemma zip_above_bound:
  "(g, v) \<in> set (zip idx (map (above_bound b) cs)) \<Longrightarrow>
     \<exists>v0. (g, v0) \<in> set (zip idx cs) \<and> v = above_bound b v0"
  by (auto simp: set_zip)

lemma above_bound_None [simp]: "above_bound b None = None"
  by (simp add: above_bound_def)

lemma cols_drop_ess_subset: "set (cols (drop_ess df)) \<subseteq> set (cols df)"
  by (auto simp: drop_ess_def)

lemma working_masked:
  assumes "(n, cs) \<in> set (cols (working df fo))" "(g, v) \<in> set (zip (index (working df fo)) cs)"
  shows "(is_tcr_col n \<and> contains ''Wnt'' g \<longrightarrow> v = None) \<and>
         (is_wnt_col n \<and> \<not> is_tcr_col n \<and> contains ''Tcr'' g \<longrightarrow> v = None)"
proof -
  define d where "d = select_rows (\<lambda>g. g \<notin> set fo) df"
  have w: "working df fo = drop_ess (d\<lparr>cols := map (mask_opposite_df (index d)) (cols d)\<rparr>)"
    by (simp add: working_def d_def Let_def)
  have idx: "index (working df fo) = index d"
    by (simp add: w index_drop_ess)
  from assms(1) have "(n, cs) \<in> set (map (mask_opposite_df (index d)) (cols d))"
    using cols_drop_ess_subset [of "d\<lparr>cols := map (mask_opposite_df (index d)) (cols d)\<rparr>"]
    by (auto simp: w)
  then obtain cs0 where c: "(n, cs) = mask_opposite_df (index d) (n, cs0)"
    by (auto simp: mask_opposite_df_def split: if_splits)
  from assms(2) have z: "(g, v) \<in> set (zip (index d) cs)" by (simp add: idx)
  show ?thesis
  proof (intro conjI impI)
    assume a: "is_tcr_col n \<and> contains ''Wnt'' g"
    with c have "cs = mask_rows (contains ''Wnt'') (index d) cs0"
      by (simp add: mask_opposite_df_def)
    with z a show "v = None" by (auto dest: zip_mask_rows)
  next
    assume a: "is_wnt_col n \<and> \<not> is_tcr_col n \<and> contains ''Tcr'' g"
    with c have "cs = mask_rows (contains ''Tcr'') (index d) cs0"
      by (simp add: mask_opposite_df_def)
    with z a show "v = None" by (auto dest: zip_mask_rows)
  qed
qed

lemma reference_masked:
  assumes "(n, cs) \<in> set (cols (reference df fo))" "(g, v) \<in> set (zip (index (reference df fo)) cs)"
  shows "(is_tcr_col n \<and> contains ''Tcr'' g \<longrightarrow> v = None) \<and>
         (is_wnt_col n \<and> \<not> is_tcr_col n \<and> contains ''Wnt'' g \<longrightarrow> v = None)"
proof -
  define f where "f = df\<lparr>cols := map (\<lambda>(n, cs).
                  (n, mask_rows (\<lambda>g. is_ctrl g \<and> g \<notin> set fo) (index df) cs)) (cols df)\<rparr>"
  have w: "reference df fo = drop_ess (f\<lparr>cols := map (mask_opposite_filtered (index f)) (cols f)\<rparr>)"
    by (simp add: reference_def f_def Let_def)
  have idx: "index (reference df fo) = index f"
    by (simp add: w index_drop_ess)
  from assms(1) have "(n, cs) \<in> set (map (mask_opposite_filtered (index f)) (cols f))"
    using cols_drop_ess_subset [of "f\<lparr>cols := map (mask_opposite_filtered (index f)) (cols f)\<rparr>"]
    by (auto simp: w)
  then obtain cs0 where c: "(n, cs) = mask_opposite_filtered (index f) (n, cs0)"
    by (auto simp: mask_opposite_filtered_def split: if_splits)
  from assms(2) have z: "(g, v) \<in> set (zip (index f) cs)" by (simp add: idx)
  show ?thesis
  proof (intro conjI impI)
    assume a: "is_tcr_col n \<and> contains ''Tcr'' g"
    with c have "cs = mask_rows (contains ''Tcr'') (index f) cs0"
      by (simp add: mask_opposite_filtered_def)
    with z a show "v = None" by (auto dest: zip_mask_rows)
  next
    assume a: "is_wnt_col n \<and> \<not> is_tcr_col n \<and> contains ''Wnt'' g"
    with c have "cs = mask_rows (contains ''Wnt'') (index f) cs0"
      by (simp add: mask_opposite_filtered_def)
    with z a show "v = None" by (auto dest: zip_mask_rows)
  qed
qed

lemma where_above_cells:
  assumes "(n, cs) \<in> set (cols (where_above b df))" "(g, v) \<in> set (zip (index (where_above b df)) cs)"
  shows "\<exists>cs0 v0. (n, cs0) \<in> set (cols df) \<and> (g, v0) \<in> set (zip (index df) cs0) \<and> v = above_bound b v0"
proof -
  from assms(1) obtain cs0 where c: "(n, cs0) \<in> set (cols df)" "cs = map (above_bound b) cs0"
    by (auto simp: where_above_def)
  from assms(2) c(2) have "(g, v) \<in> set (zip (index df) (map (above_bound b) cs0))"
    by (simp add: index_where_above)
  then obtain v0 where "(g, v0) \<in> set (zip (index df) cs0)" "v = above_bound b v0"
    by (auto dest: zip_above_bound)
  with c(1) show ?thesis by blast
qed

lemma cols_drop_ess:
  "cols (drop_ess df) = filter (\<lambda>(n, cs). n \<noteq> ''plasmid_pool_ESS'') (cols df)"
proof (cases "''plasmid_pool_ESS'' \<in> set (map fst (cols df))")
  case True
  then show ?thesis by (simp add: drop_ess_def)
next
  case False
  then have "filter (\<lambda>(n, cs). n \<noteq> ''plasmid_pool_ESS'') (cols df) = cols df"
    by (intro filter_True) force
  with False show ?thesis by (simp add: drop_ess_def)
qed

lemma filter_names_map:
  assumes "\<And>c. fst (f c) = fst c"
  shows "filter (\<lambda>(n, cs). P n) (map f xs) = map f (filter (\<lambda>(n, cs). P n) xs)"
  by (induction xs) (simp_all add: case_prod_unfold assms)

lemma zip_selected_rows:
  "zip (filter keep idx) (map snd (filter (\<lambda>(g, v). keep g) (zip idx cs))) =
     filter (\<lambda>(g, v). keep g) (zip idx cs)"
proof (induction idx arbitrary: cs)
  case Nil
  show ?case by simp
next
  case (Cons g idx)
  show ?case
  proof (cases cs)
    case Nil
    then show ?thesis by simp
  next
    case (Cons c cs')
    with Cons.IH [of cs'] show ?thesis by simp
  qed
qed

lemma zip_with_masked:
  "zip idx (map f (zip idx cs)) = map (\<lambda>p. (fst p, f p)) (zip idx cs)"
proof (induction idx arbitrary: cs)
  case Nil
  show ?case by simp
next
  case (Cons g idx)
  show ?case
  proof (cases cs)
    case Nil
    then show ?thesis by simp
  next
    case (Cons c cs')
    with Cons.IH [of cs'] show ?thesis by simp
  qed
qed

lemma mask_rows_twice:
  "mask_rows h2 idx (mask_rows h1 idx cs) =
     map (\<lambda>(g, v). if h1 g \<or> h2 g then None else v) (zip idx cs)"
  unfolding mask_rows_def zip_with_masked
  by (simp add: case_prod_unfold)

lemma working_cells:
  "index (working df fo) = filter (\<lambda>g. g \<notin> set fo) (index df) \<and>
   cols (working df fo) =
     map (\<lambda>(n, cs). (n, map (\<lambda>(g, v).
              if (is_tcr_col n \<and> contains ''Wnt'' g) \<or>
                 (\<not> is_tcr_col n \<and> is_wnt_col n \<and> contains ''Tcr'' g)
              then None else v)
            (filter (\<lambda>(g, v). g \<notin> set fo) (zip (index df) cs))))
         (filter (\<lambda>(n, cs). n \<noteq> ''plasmid_pool_ESS'') (cols df))"
proof
  show "index (working df fo) = filter (\<lambda>g. g \<notin> set fo) (index df)"
    by (simp add: working_def Let_def index_drop_ess select_rows_def)
next
  let ?keep = "\<lambda>g. g \<notin> set fo"
  let ?sel = "\<lambda>c. (fst c, map snd (filter (\<lambda>(g, v). ?keep g) (zip (index df) (snd c))))"
  let ?mask = "mask_opposite_df (filter ?keep (index df))"
  let ?both = "\<lambda>(n, cs). (n, map (\<lambda>(g, v).
              if (is_tcr_col n \<and> contains ''Wnt'' g) \<or>
                 (\<not> is_tcr_col n \<and> is_wnt_col n \<and> contains ''Tcr'' g)
              then None else v)
            (filter (\<lambda>(g, v). g \<notin> set fo) (zip (index df) cs)))"
  have one: "?mask (?sel c) = ?both c" for c
  proof (cases c)
    case (Pair n cs)
    show ?thesis
      unfolding Pair mask_opposite_df_def mask_rows_def
      by (simp add: zip_selected_rows)
  qed
  have "cols (working df fo) =
          filter (\<lambda>(n, cs). n \<noteq> ''plasmid_pool_ESS'') (map (\<lambda>c. ?mask (?sel c)) (cols df))"
    by (simp add: working_def Let_def cols_drop_ess select_rows_def o_def case_prod_unfold)
  also have "\<dots> = map (\<lambda>c. ?mask (?sel c)) (filter (\<lambda>(n, cs). n \<noteq> ''plasmid_pool_ESS'') (cols df))"
    by (rule filter_names_map) (simp add: fst_mask_opposite_df)
  also have "\<dots> = map ?both (filter (\<lambda>(n, cs). n \<noteq> ''plasmid_pool_ESS'') (cols df))"
    by (simp only: one)
  finally show "cols (working df fo) = map ?both (filter (\<lambda>(n, cs). n \<noteq> ''plasmid_pool_ESS'') (cols df))" .
qed

lemma reference_cells:
  "index (reference df fo) = index df \<and>
   cols (reference df fo) =
     map (\<lambda>(n, cs). (n, map (\<lambda>(g, v).
              if (is_ctrl g \<and> g \<notin> set fo) \<or>
                 (is_tcr_col n \<and> contains ''Tcr'' g) \<or>
                 (\<not> is_tcr_col n \<and> is_wnt_col n \<and> contains ''Wnt'' g)
              then None else v)
            (zip (index df) cs)))
         (filter (\<lambda>(n, cs). n \<noteq> ''plasmid_pool_ESS'') (cols df))"
proof
  show "index (reference df fo) = index df"
    by (simp add: reference_def Let_def index_drop_ess)
next
  let ?ctl = "\<lambda>c. (fst c, mask_rows (\<lambda>g. is_ctrl g \<and> g \<notin> set fo) (index df) (snd c))"
  let ?mask = "mask_opposite_filtered (index df)"
  let ?both = "\<lambda>(n, cs). (n, map (\<lambda>(g, v).
              if (is_ctrl g \<and> g \<notin> set fo) \<or>
                 (is_tcr_col n \<and> contains ''Tcr'' g) \<or>
                 (\<not> is_tcr_col n \<and> is_wnt_col n \<and> contains ''Wnt'' g)
              then None else v)
            (zip (index df) cs))"
  have one: "?mask (?ctl c) = ?both c" for c
  proof (cases c)
    case (Pair n cs)
    show ?thesis
      unfolding Pair mask_opposite_filtered_def
      by (simp add: mask_rows_twice) (simp add: mask_rows_def)
  qed
  have "cols (reference df fo) =
          filter (\<lambda>(n, cs). n \<noteq> ''plasmid_pool_ESS'') (map (\<lambda>c. ?mask (?ctl c)) (cols df))"
    by (simp add: reference_def Let_def cols_drop_ess o_def case_prod_unfold)
  also have "\<dots> = map (\<lambda>c. ?mask (?ctl c)) (filter (\<lambda>(n, cs). n \<noteq> ''plasmid_pool_ESS'') (cols df))"
    by (rule filter_names_map) (simp add: fst_mask_opposite_filtered)
  also have "\<dots> = map ?both (filter (\<lambda>(n, cs). n \<noteq> ''plasmid_pool_ESS'') (cols df))"
    by (simp only: one)
  finally show "cols (reference df fo) = map ?both (filter (\<lambda>(n, cs). n \<noteq> ''plasmid_pool_ESS'') (cols df))" .
qed

lemma c1_reference: "reference c1_df default_filter_out =
   \<lparr>index = [''Wnt_CTNNB1_1'', ''Tcr_CD3E_1''],
    cols = [(''Jurkat_TCR_stimulated'', [Some 3, None]),
            (''WNT_TCR_mix'', [Some 2, None]),
            (''HEK293T_4_WNT'', [None, Some 7])]\<rparr>"
  by (simp add: reference_def c1_df_def default_filter_out_def drop_ess_def
      mask_opposite_filtered_def mask_rows_def str_eval)

lemma c1_working: "working c1_df default_filter_out =
   \<lparr>index = [''Wnt_CTNNB1_1'', ''Tcr_CD3E_1''],
    cols = [(''Jurkat_TCR_stimulated'', [None, Some 9]),
            (''WNT_TCR_mix'', [None, Some 8]),
            (''HEK293T_4_WNT'', [Some 50, None])]\<rparr>"
  by (simp add: working_def c1_df_def default_filter_out_def drop_ess_def
      mask_opposite_df_def mask_rows_def str_eval select_rows_def)

lemma c1_bound: "percentile_float no_rounding linear [3, 2, 7] 95 = 33 / 5"
  by (simp add: percentile_float_def no_rounding_def linear_def)

lemma c1_filter: "filter_gRNAs no_rounding linear (Inl IndexError) c1_df default_filter_out = Inr c1_out"
proof -
  have v: "defined_values (reference c1_df default_filter_out) = [3, 2, 7]"
    by (simp add: c1_reference defined_values_def)
  then have ne: "defined_values (reference c1_df default_filter_out) \<noteq> []" by simp
  show ?thesis
    by (simp add: filter_gRNAs_nonempty [OF ne] v c1_bound c1_working where_above_def
        above_bound_def c1_out_def)
qed

text \<open>
  C1, as the code has it. Before the threshold the working matrix is the input without the
  rows of the filter-out list and without the column "plasmid\_pool\_ESS", with exactly
  these cells set to missing: the rows whose id contains "Wnt" in a column named with
  "TCR" or "Jurkat", and the rows whose id contains "Tcr" in a column named with "WNT" or
  "HEK" and neither "TCR" nor "Jurkat". The reference matrix is the input without that
  column, with exactly these cells set to missing: the control guides outside the
  filter-out list, the rows whose id contains "Tcr" in a "TCR"/"Jurkat" column, and the
  rows whose id contains "Wnt" in a "WNT"/"HEK" column named without "TCR" and "Jurkat".
  The returned matrix is the working matrix after the threshold, so it has no number for
  a "Wnt" guide in a "TCR"/"Jurkat" column nor for a "Tcr" guide in such a "WNT"/"HEK"
  column; the reference matrix has none for a "Tcr" guide in a "TCR"/"Jurkat" column nor
  for a "Wnt" guide in such a "WNT"/"HEK" column. When the reference matrix holds a
  number, the call returns the working matrix with the cells that are not greater than
  the 95th percentile of the reference matrix's numbers set to missing.
\<close>

theorem filter_gRNAs_sub_library:
  "index (working df fo) = filter (\<lambda>g. g \<notin> set fo) (index df) \<and>
   cols (working df fo) =
     map (\<lambda>(n, cs). (n, map (\<lambda>(g, v).
              if (is_tcr_col n \<and> contains ''Wnt'' g) \<or>
                 (\<not> is_tcr_col n \<and> is_wnt_col n \<and> contains ''Tcr'' g)
              then None else v)
            (filter (\<lambda>(g, v). g \<notin> set fo) (zip (index df) cs))))
         (filter (\<lambda>(n, cs). n \<noteq> ''plasmid_pool_ESS'') (cols df)) \<and>
   index (reference df fo) = index df \<and>
   cols (reference df fo) =
     map (\<lambda>(n, cs). (n, map (\<lambda>(g, v).
              if (is_ctrl g \<and> g \<notin> set fo) \<or>
                 (is_tcr_col n \<and> contains ''Tcr'' g) \<or>
                 (\<not> is_tcr_col n \<and> is_wnt_col n \<and> contains ''Wnt'' g)
              then None else v)
            (zip (index df) cs)))
         (filter (\<lambda>(n, cs). n \<noteq> ''plasmid_pool_ESS'') (cols df)) \<and>
   (\<forall>out. filter_gRNAs rnd lerp oe df fo = Inr out \<longrightarrow>
      (\<exists>b. out = where_above b (working df fo)) \<and>
      (\<forall>(n, cs) \<in> set (cols out). \<forall>(g, v) \<in> set (zip (index out) cs).
         (is_tcr_col n \<and> contains ''Wnt'' g \<longrightarrow> v = None) \<and>
         (is_wnt_col n \<and> \<not> is_tcr_col n \<and> contains ''Tcr'' g \<longrightarrow> v = None))) \<and>
   (\<forall>(n, cs) \<in> set (cols (reference df fo)). \<forall>(g, v) \<in> set (zip (index (reference df fo)) cs).
         (is_tcr_col n \<and> contains ''Tcr'' g \<longrightarrow> v = None) \<and>
         (is_wnt_col n \<and> \<not> is_tcr_col n \<and> contains ''Wnt'' g \<longrightarrow> v = None)) \<and>
   (defined_values (reference df fo) \<noteq> [] \<longrightarrow>
      filter_gRNAs rnd lerp oe df fo =
        Inr (where_above (Some (percentile_float rnd lerp (defined_values (reference df fo)) 95))
               (working df fo)))"
proof -
  have w: "index (working df fo) = filter (\<lambda>g. g \<notin> set fo) (index df)"
    and wc: "cols (working df fo) =
     map (\<lambda>(n, cs). (n, map (\<lambda>(g, v).
              if (is_tcr_col n \<and> contains ''Wnt'' g) \<or>
                 (\<not> is_tcr_col n \<and> is_wnt_col n \<and> contains ''Tcr'' g)
              then None else v)
            (filter (\<lambda>(g, v). g \<notin> set fo) (zip (index df) cs))))
         (filter (\<lambda>(n, cs). n \<noteq> ''plasmid_pool_ESS'') (cols df))"
    using working_cells [of df fo] by blast+
  have r: "index (reference df fo) = index df"
    and rc: "cols (reference df fo) =
     map (\<lambda>(n, cs). (n, map (\<lambda>(g, v).
              if (is_ctrl g \<and> g \<notin> set fo) \<or>
                 (is_tcr_col n \<and> contains ''Tcr'' g) \<or>
                 (\<not> is_tcr_col n \<and> is_wnt_col n \<and> contains ''Wnt'' g)
              then None else v)
            (zip (index df) cs)))
         (filter (\<lambda>(n, cs). n \<noteq> ''plasmid_pool_ESS'') (cols df))"
    using reference_cells [of df fo] by blast+
  have o: "\<forall>out. filter_gRNAs rnd lerp oe df fo = Inr out \<longrightarrow>
      (\<exists>b. out = where_above b (working df fo)) \<and>
      (\<forall>(n, cs) \<in> set (cols out). \<forall>(g, v) \<in> set (zip (index out) cs).
         (is_tcr_col n \<and> contains ''Wnt'' g \<longrightarrow> v = None) \<and>
         (is_wnt_col n \<and> \<not> is_tcr_col n \<and> contains ''Tcr'' g \<longrightarrow> v = None))"
  proof (intro allI impI)
    fix out
    assume "filter_gRNAs rnd lerp oe df fo = Inr out"
    then obtain b where out: "out = where_above b (working df fo)"
      using filter_gRNAs_Inr by blast
    have "\<forall>(n, cs) \<in> set (cols out). \<forall>(g, v) \<in> set (zip (index out) cs).
         (is_tcr_col n \<and> contains ''Wnt'' g \<longrightarrow> v = None) \<and>
         (is_wnt_col n \<and> \<not> is_tcr_col n \<and> contains ''Tcr'' g \<longrightarrow> v = None)"
    proof (clarify, intro conjI impI)
      fix n cs g v
      assume m: "(n, cs) \<in> set (cols out)" "(g, v) \<in> set (zip (index out) cs)"
      then obtain cs0 v0 where o: "(n, cs0) \<in> set (cols (working df fo))"
          "(g, v0) \<in> set (zip (index (working df fo)) cs0)" "v = above_bound b v0"
        using where_above_cells unfolding out by blast
      { assume "is_tcr_col n \<and> contains ''Wnt'' g"
        with working_masked [OF o(1,2)] have "v0 = None" by simp
        with o(3) show "v = None" by simp }
      { assume "is_wnt_col n \<and> \<not> is_tcr_col n \<and> contains ''Tcr'' g"
        with working_masked [OF o(1,2)] have "v0 = None" by simp
        with o(3) show "v = None" by simp }
    qed
    with out show "(\<exists>b. out = where_above b (working df fo)) \<and>
      (\<forall>(n, cs) \<in> set (cols out). \<forall>(g, v) \<in> set (zip (index out) cs).
         (is_tcr_col n \<and> contains ''Wnt'' g \<longrightarrow> v = None) \<and>
         (is_wnt_col n \<and> \<not> is_tcr_col n \<and> contains ''Tcr'' g \<longrightarrow> v = None))"
      by blast
  qed
  have f: "\<forall>(n, cs) \<in> set (cols (reference df fo)). \<forall>(g, v) \<in> set (zip (index (reference df fo)) cs).
         (is_tcr_col n \<and> contains ''Tcr'' g \<longrightarrow> v = None) \<and>
         (is_wnt_col n \<and> \<not> is_tcr_col n \<and> contains ''Wnt'' g \<longrightarrow> v = None)"
    using reference_masked by blast
  have n: "defined_values (reference df fo) \<noteq> [] \<longrightarrow>
      filter_gRNAs rnd lerp oe df fo =
        Inr (where_above (Some (percentile_float rnd lerp (defined_values (reference df fo)) 95))
               (working df fo))"
    by (simp add: filter_gRNAs_nonempty)
  from w wc r rc o f n show ?thesis by (intro conjI)
qed

theorem filter_gRNAs_sub_library_witness:
  "defined_values (reference c1_df default_filter_out) \<noteq> [] \<and>
   filter_gRNAs no_rounding linear (Inl IndexError) c1_df default_filter_out = Inr c1_out \<and>
   (''Jurkat_TCR_stimulated'', [None, Some 9]) \<in> set (cols c1_out) \<and>
   (''Wnt_CTNNB1_1'', None) \<in> set (zip (index c1_out) [None, Some 9]) \<and>
   is_tcr_col ''Jurkat_TCR_stimulated'' \<and> contains ''Wnt'' ''Wnt_CTNNB1_1'' \<and>
   (''HEK293T_4_WNT'', [Some 50, None]) \<in> set (cols c1_out) \<and>
   (''Tcr_CD3E_1'', None) \<in> set (zip (index c1_out) [Some 50, None]) \<and>
   is_wnt_col ''HEK293T_4_WNT'' \<and> \<not> is_tcr_col ''HEK293T_4_WNT'' \<and>
   contains ''Tcr'' ''Tcr_CD3E_1'' \<and>
   (''Jurkat_TCR_stimulated'', [Some 3, None]) \<in> set (cols (reference c1_df default_filter_out)) \<and>
   (''Tcr_CD3E_1'', None) \<in> set (zip (index (reference c1_df default_filter_out)) [Some 3, None])"
proof -
  have s: "is_tcr_col ''Jurkat_TCR_stimulated'' \<and> contains ''Wnt'' ''Wnt_CTNNB1_1'' \<and>
      is_wnt_col ''HEK293T_4_WNT'' \<and> \<not> is_tcr_col ''HEK293T_4_WNT'' \<and>
      contains ''Tcr'' ''Tcr_CD3E_1''"
    by (simp add: str_eval)
  have m: "(''Jurkat_TCR_stimulated'', [None, Some 9]) \<in> set (cols c1_out) \<and>
      (''Wnt_CTNNB1_1'', None) \<in> set (zip (index c1_out) [None, Some 9]) \<and>
      (''HEK293T_4_WNT'', [Some 50, None]) \<in> set (cols c1_out) \<and>
      (''Tcr_CD3E_1'', None) \<in> set (zip (index c1_out) [Some 50, None])"
    by (simp add: c1_out_def)
  have r: "(''Jurkat_TCR_stimulated'', [Some 3, None]) \<in> set (cols (reference c1_df default_filter_out)) \<and>
      (''Tcr_CD3E_1'', None) \<in> set (zip (index (reference c1_df default_filter_out)) [Some 3, None])"
    by (simp add: c1_reference)
  have ne: "defined_values (reference c1_df default_filter_out) \<noteq> []"
    by (simp add: c1_reference defined_values_def)
  from filter_gRNAs_sub_library [of c1_df default_filter_out no_rounding linear "Inl IndexError"]
    ne c1_filter s m r
  show ?thesis by (intro conjI) (erule conjE | assumption)+
qed

text \<open>
  The claim as stated fails on a two-guide matrix: the reference matrix keeps the count 3
  of the "Wnt" guide in the column "Jurkat\_TCR\_stimulated", and the returned matrix
  keeps the count 8 of the "Tcr" guide in the column "WNT\_TCR\_mix", whose name passes
  the first test of the loop.
\<close>

theorem filter_gRNAs_sub_library_counterexample:
  "is_tcr_col ''Jurkat_TCR_stimulated'' \<and> contains ''Wnt'' ''Wnt_CTNNB1_1'' \<and>
   reference c1_df default_filter_out =
     \<lparr>index = [''Wnt_CTNNB1_1'', ''Tcr_CD3E_1''],
      cols = [(''Jurkat_TCR_stimulated'', [Some 3, None]),
              (''WNT_TCR_mix'', [Some 2, None]),
              (''HEK293T_4_WNT'', [None, Some 7])]\<rparr> \<and>
   is_wnt_col ''WNT_TCR_mix'' \<and> contains ''Tcr'' ''Tcr_CD3E_1'' \<and>
   filter_gRNAs no_rounding linear (Inl IndexError) c1_df default_filter_out =
     Inr \<lparr>index = [''Wnt_CTNNB1_1'', ''Tcr_CD3E_1''],
          cols = [(''Jurkat_TCR_stimulated'', [None, Some 9]),
                  (''WNT_TCR_mix'', [None, Some 8]),
                  (''HEK293T_4_WNT'', [Some 50, None])]\<rparr>"
  by (simp add: c1_reference c1_filter c1_out_def) (simp add: str_eval)

subsection \<open>The noise threshold\<close>

lemma where_above_nth:
  assumes "j < length (cols df)" "i < length (snd (cols df ! j))"
  shows "snd (cols (where_above (Some b) df) ! j) ! i =
           (case snd (cols df ! j) ! i of None \<Rightarrow> None
            | Some x \<Rightarrow> if x \<le> b then None else Some x)"
  using assms
  by (auto simp: where_above_def above_bound_def case_prod_unfold split: option.splits)

lemma where_above_lengths:
  "length (cols (where_above b df)) = length (cols df)"
  "j < length (cols df) \<Longrightarrow> length (snd (cols (where_above b df) ! j)) = length (snd (cols df ! j))"
  by (auto simp: where_above_def case_prod_unfold)

lemma c2_reference:
  "defined_values (reference c2_df default_filter_out) =
     [8, 50, 75, 2, 14, 4, 30, 6, 22, 10, 38, 12, 16, 18, 36, 20, 34, 24, 32, 26, 28]"
  by (simp add: reference_def c2_df_def default_filter_out_def drop_ess_def
      mask_opposite_filtered_def mask_rows_def defined_values_def str_eval)

lemma c2_working: "working c2_df default_filter_out =
   \<lparr>index = [''Tcr_CD3E_1'', ''Tcr_CD3E_2'', ''CTRL00001'', ''Tcr_LCK_1''],
    cols = [(''CROP-seq_Jurkat_TCR_stimulated'', [Some 50, Some 51, Some 300, Some 500])]\<rparr>"
  by (simp add: working_def c2_df_def default_filter_out_def drop_ess_def
      mask_opposite_df_def mask_rows_def str_eval select_rows_def)

lemma c2_sorted:
  "sort [8, 50, 75, 2, 14, 4, 30, 6, 22, 10, 38, 12, 16, 18, 36, 20, 34, 24, 32, 26, 28 :: real] =
     [2, 4, 6, 8, 10, 12, 14, 16, 18, 20, 22, 24, 26, 28, 30, 32, 34, 36, 38, 50, 75]"
  by simp

lemma c2_bound:
  "percentile_float no_rounding linear
     [8, 50, 75, 2, 14, 4, 30, 6, 22, 10, 38, 12, 16, 18, 36, 20, 34, 24, 32, 26, 28] 95 = 50"
  unfolding percentile_float_def c2_sorted
  by (simp add: no_rounding_def linear_def)

lemma count_list_concat:
  "count_list (concat xss) x = sum_list (map (\<lambda>xs. count_list xs x) xss)"
  by (induction xss) simp_all

lemma count_defined_cells:
  "count_list (concat (map (\<lambda>v. case v of None \<Rightarrow> [] | Some x \<Rightarrow> [x]) cs)) x
     = count_list cs (Some x)"
  by (induction cs) (auto split: option.splits)

lemma count_defined_values:
  "count_list (defined_values m) x =
     sum_list (map (\<lambda>(n, cs). count_list cs (Some x)) (cols m))"
proof -
  have "count_list (defined_values m) x =
          sum_list (map (\<lambda>c. count_list
             (concat (map (\<lambda>v. case v of None \<Rightarrow> [] | Some x \<Rightarrow> [x]) (snd c))) x) (cols m))"
    by (simp add: defined_values_def count_list_concat [of "map _ (cols m)"] o_def case_prod_unfold)
  then show ?thesis
    by (simp only: count_defined_cells case_prod_unfold)
qed

text \<open>
  The bound of the example does not depend on the rounding: whenever the position is
  computed as 19, as it is in float64 (\<open>0.95 * 20\<close> rounds to 19), the weight is
  0, and an interpolation with weight 0 gives the lower neighbour, the bound is 50.
\<close>

lemma c2_bound_float:
  assumes "rnd (rnd (95 / 100) * 20) = 19" and "rnd 0 = 0" and "lerp 50 75 0 = 50"
  shows "percentile_float rnd lerp
     [8, 50, 75, 2, 14, 4, 30, 6, 22, 10, 38, 12, 16, 18, 36, 20, 34, 24, 32, 26, 28] 95 = 50"
  unfolding percentile_float_def c2_sorted
  using assms by simp

text \<open>
  C2. With at least one number in the reference matrix the call returns. The threshold is
  the 95th percentile of the numbers of the reference matrix (every cell that is not
  missing, as often as it occurs) as numpy computes it: the numbers sorted, the position
  \<open>95 / 100 * (n - 1)\<close>, and the interpolation between the two numbers next to that
  position. Each cell of the working matrix comes back missing
  when it is missing or at most the threshold, and unchanged when it is greater. In the
  example 21 unused control guides have the counts 2 to 75, the position is 19 and the
  threshold the twentieth count in ascending order, 50; the count 50 of a guide is
  masked and the counts 51, 300 and 500 stay.
\<close>

theorem filter_gRNAs_noise_threshold:
  assumes "defined_values (reference df fo) \<noteq> []"
  shows "(\<forall>x. count_list (defined_values (reference df fo)) x =
              sum_list (map (\<lambda>(n, cs). count_list cs (Some x)) (cols (reference df fo)))) \<and>
         (\<exists>out b. filter_gRNAs rnd lerp oe df fo = Inr out \<and>
            b = (let s = sort (defined_values (reference df fo));
                     n = length s;
                     pos = rnd (rnd (95 / 100) * real (n - 1));
                     below = min (nat \<lfloor>pos\<rfloor>) (n - 1);
                     above = min (below + 1) (n - 1)
                 in lerp (s ! below) (s ! above) (rnd (pos - real below))) \<and>
            index out = index (working df fo) \<and>
            map fst (cols out) = map fst (cols (working df fo)) \<and>
            (\<forall>j < length (cols (working df fo)).
               length (snd (cols out ! j)) = length (snd (cols (working df fo) ! j)) \<and>
               (\<forall>i < length (snd (cols (working df fo) ! j)).
                  snd (cols out ! j) ! i =
                    (case snd (cols (working df fo) ! j) ! i of
                       None \<Rightarrow> None
                     | Some x \<Rightarrow> if x \<le> b then None else Some x))))"
proof (rule conjI)
  show "\<forall>x. count_list (defined_values (reference df fo)) x =
              sum_list (map (\<lambda>(n, cs). count_list cs (Some x)) (cols (reference df fo)))"
    by (intro allI) (rule count_defined_values)
next
  let ?b = "percentile_float rnd lerp (defined_values (reference df fo)) 95"
  have "filter_gRNAs rnd lerp oe df fo = Inr (where_above (Some ?b) (working df fo))"
    by (rule filter_gRNAs_nonempty [OF assms])
  moreover have "?b = (let s = sort (defined_values (reference df fo));
                    n = length s;
                    pos = rnd (rnd (95 / 100) * real (n - 1));
                    below = min (nat \<lfloor>pos\<rfloor>) (n - 1);
                    above = min (below + 1) (n - 1)
                in lerp (s ! below) (s ! above) (rnd (pos - real below)))"
    by (simp add: percentile_float_def)
  moreover have "index (where_above (Some ?b) (working df fo)) = index (working df fo)"
    by (rule index_where_above)
  moreover have "map fst (cols (where_above (Some ?b) (working df fo))) = map fst (cols (working df fo))"
    by (rule names_where_above)
  moreover have "\<forall>j < length (cols (working df fo)).
              length (snd (cols (where_above (Some ?b) (working df fo)) ! j))
                = length (snd (cols (working df fo) ! j)) \<and>
              (\<forall>i < length (snd (cols (working df fo) ! j)).
                 snd (cols (where_above (Some ?b) (working df fo)) ! j) ! i =
                   (case snd (cols (working df fo) ! j) ! i of
                      None \<Rightarrow> None
                    | Some x \<Rightarrow> if x \<le> ?b then None else Some x))"
    by (simp add: where_above_nth where_above_lengths)
  ultimately show "\<exists>out b. filter_gRNAs rnd lerp oe df fo = Inr out \<and>
           b = (let s = sort (defined_values (reference df fo));
                    n = length s;
                    pos = rnd (rnd (95 / 100) * real (n - 1));
                    below = min (nat \<lfloor>pos\<rfloor>) (n - 1);
                    above = min (below + 1) (n - 1)
                in lerp (s ! below) (s ! above) (rnd (pos - real below))) \<and>
           index out = index (working df fo) \<and>
           map fst (cols out) = map fst (cols (working df fo)) \<and>
           (\<forall>j < length (cols (working df fo)).
              length (snd (cols out ! j)) = length (snd (cols (working df fo) ! j)) \<and>
              (\<forall>i < length (snd (cols (working df fo) ! j)).
                 snd (cols out ! j) ! i =
                   (case snd (cols (working df fo) ! j) ! i of
                      None \<Rightarrow> None
                    | Some x \<Rightarrow> if x \<le> b then None else Some x)))"
    by blast
qed

theorem filter_gRNAs_noise_threshold_witness:
  "defined_values (reference c2_df default_filter_out) \<noteq> [] \<and>
   sort (defined_values (reference c2_df default_filter_out)) =
     [2, 4, 6, 8, 10, 12, 14, 16, 18, 20, 22, 24, 26, 28, 30, 32, 34, 36, 38, 50, 75] \<and>
   percentile_float no_rounding linear (defined_values (reference c2_df default_filter_out)) 95 = 50 \<and>
   working c2_df default_filter_out =
     \<lparr>index = [''Tcr_CD3E_1'', ''Tcr_CD3E_2'', ''CTRL00001'', ''Tcr_LCK_1''],
      cols = [(''CROP-seq_Jurkat_TCR_stimulated'', [Some 50, Some 51, Some 300, Some 500])]\<rparr> \<and>
   filter_gRNAs no_rounding linear (Inl IndexError) c2_df default_filter_out =
     Inr \<lparr>index = [''Tcr_CD3E_1'', ''Tcr_CD3E_2'', ''CTRL00001'', ''Tcr_LCK_1''],
          cols = [(''CROP-seq_Jurkat_TCR_stimulated'', [None, Some 51, Some 300, Some 500])]\<rparr>"
proof -
  have ne: "defined_values (reference c2_df default_filter_out) \<noteq> []"
    by (simp add: c2_reference)
  have so: "sort (defined_values (reference c2_df default_filter_out)) =
     [2, 4, 6, 8, 10, 12, 14, 16, 18, 20, 22, 24, 26, 28, 30, 32, 34, 36, 38, 50, 75]"
    unfolding c2_reference by (rule c2_sorted)
  have b: "percentile_float no_rounding linear (defined_values (reference c2_df default_filter_out)) 95 = 50"
    unfolding c2_reference by (rule c2_bound)
  have r: "filter_gRNAs no_rounding linear (Inl IndexError) c2_df default_filter_out =
     Inr \<lparr>index = [''Tcr_CD3E_1'', ''Tcr_CD3E_2'', ''CTRL00001'', ''Tcr_LCK_1''],
          cols = [(''CROP-seq_Jurkat_TCR_stimulated'', [None, Some 51, Some 300, Some 500])]\<rparr>"
    by (simp add: filter_gRNAs_nonempty [OF ne] b c2_working where_above_def above_bound_def)
  from filter_gRNAs_noise_threshold [OF ne, of no_rounding linear "Inl IndexError"] ne so b
    c2_working r
  show ?thesis by (intro conjI) assumption+
qed

subsection \<open>An empty reference matrix\<close>

text \<open>
  filter\_gRNAs has no test of its own for a reference matrix without numbers: what it
  does then is what \<open>np.percentile\<close> does on an empty array. If that raises, the call
  raises; if that is NaN, the call returns the working matrix with every cell missing.
\<close>

lemma filter_gRNAs_empty_reference:
  assumes "defined_values (reference df fo) = []"
  shows "filter_gRNAs rnd lerp oe df fo =
           (case oe of Inl e \<Rightarrow> Inl e | Inr b \<Rightarrow> Inr (where_above b (working df fo)))"
  using assms by (simp add: filter_gRNAs_def np_percentile_def)

lemma where_above_NaN:
  "(n, cs) \<in> set (cols (where_above None df)) \<Longrightarrow> v \<in> set cs \<Longrightarrow> v = None"
  by (auto simp: where_above_def above_bound_def split: option.splits)

subsection \<open>Normalisation\<close>

lemma column_sum_defined: "column_sum cs = sum_list (defined cs)"
  by (induction cs) (auto simp: column_sum_def defined_def split: option.splits)

lemma normalize_column_nonzero:
  assumes "column_sum cs \<noteq> 0"
  shows "normalize_column cs =
           map (\<lambda>v. case v of None \<Rightarrow> NaN | Some x \<Rightarrow> Fin (x / column_sum cs * 10000)) cs"
  using assms
  by (auto simp: normalize_column_def Let_def fdiv_def fscale_def split: option.splits)

lemma finite_values_scaled:
  "finite_values (map (\<lambda>v. case v of None \<Rightarrow> NaN | Some x \<Rightarrow> Fin (f x)) cs) = map f (defined cs)"
  by (induction cs) (auto simp: finite_values_def defined_def split: option.splits)

lemma sum_list_scaled: "sum_list (map (\<lambda>x. x / s * k) xs) = sum_list xs / s * (k::real)"
  by (induction xs) (simp_all add: add_divide_distrib distrib_right)

lemma normalize_column_total:
  assumes "column_sum cs \<noteq> 0"
  shows "sum_list (finite_values (normalize_column cs)) = 10000"
proof -
  have "sum_list (finite_values (normalize_column cs)) =
          sum_list (map (\<lambda>x. x / column_sum cs * 10000) (defined cs))"
    by (simp only: normalize_column_nonzero [OF assms] finite_values_scaled)
  also have "\<dots> = sum_list (defined cs) / column_sum cs * 10000"
    by (rule sum_list_scaled)
  also have "\<dots> = 10000"
    using assms by (simp add: column_sum_defined)
  finally show ?thesis .
qed

lemma normalize_by_total_nth:
  "j < length (cols df) \<Longrightarrow>
     cols (normalize_by_total df) ! j = (fst (cols df ! j), normalize_column (snd (cols df ! j)))"
  by (simp add: normalize_by_total_def case_prod_unfold)

text \<open>
  C3. A column whose numbers sum to \<open>S > 0\<close> is normalised cell by cell to
  \<open>x / S * 10000\<close>, its missing cells stay missing (NaN), and the numbers of the
  normalised column sum to 10000. The arithmetic is exact here, which is what the claim's
  tolerance allows for.
\<close>

theorem normalize_by_total_10000:
  assumes "j < length (cols df)" and "column_sum (snd (cols df ! j)) > 0"
  shows "index (normalize_by_total df) = index df \<and>
         fst (cols (normalize_by_total df) ! j) = fst (cols df ! j) \<and>
         snd (cols (normalize_by_total df) ! j) =
           map (\<lambda>v. case v of None \<Rightarrow> NaN
                     | Some x \<Rightarrow> Fin (x / column_sum (snd (cols df ! j)) * 10000))
               (snd (cols df ! j)) \<and>
         sum_list (finite_values (snd (cols (normalize_by_total df) ! j))) = 10000"
proof -
  from assms(2) have nz: "column_sum (snd (cols df ! j)) \<noteq> 0" by simp
  show ?thesis
    using normalize_column_nonzero [OF nz] normalize_column_total [OF nz]
    by (simp add: normalize_by_total_nth [OF assms(1)]) (simp add: normalize_by_total_def)
qed

theorem normalize_by_total_10000_witness:
  "(0::nat) < length (cols c3_df) \<and> column_sum (snd (cols c3_df ! 0)) > 0 \<and>
   normalize_by_total c3_df =
     \<lparr>index = [''Tcr_CD3E_1'', ''Tcr_LCK_1'', ''CTRL00001''],
      cols = [(''Jurkat_TCR_unstimulated'', [Fin 7500, NaN, Fin 2500])]\<rparr> \<and>
   sum_list (finite_values (snd (cols (normalize_by_total c3_df) ! 0))) = 10000"
proof -
  have a: "(0::nat) < length (cols c3_df)" by (simp add: c3_df_def)
  have b: "column_sum (snd (cols c3_df ! 0)) > 0" by (simp add: c3_df_def column_sum_def)
  have c: "normalize_by_total c3_df =
     \<lparr>index = [''Tcr_CD3E_1'', ''Tcr_LCK_1'', ''CTRL00001''],
      cols = [(''Jurkat_TCR_unstimulated'', [Fin 7500, NaN, Fin 2500])]\<rparr>"
    by (simp add: normalize_by_total_def c3_df_def normalize_column_def column_sum_def
        fdiv_def fscale_def)
  have d: "sum_list (finite_values (snd (cols (normalize_by_total c3_df) ! 0))) = 10000"
    by (simp add: c finite_values_def)
  from normalize_by_total_10000 [OF a b] a b c d show ?thesis by (intro conjI) assumption+
qed

lemma normalize_column_zero:
  assumes "column_sum cs = 0"
  shows "normalize_column cs =
           map (\<lambda>v. case v of None \<Rightarrow> NaN
                     | Some x \<Rightarrow> if x > 0 then PInf else if x < 0 then NInf else NaN) cs"
  using assms
  by (auto simp: normalize_column_def Let_def fdiv_def fscale_def split: option.splits)

text \<open>
  C5, as the code has it. Nothing is raised for a column whose numbers sum to zero or
  which has no number: the division is carried out, a zero or missing cell becomes NaN,
  a positive cell plus infinity and a negative cell minus infinity. A column of zeros and
  missing cells is NaN throughout after the normalisation.
\<close>

theorem normalize_by_total_zero_sum:
  assumes "j < length (cols df)" and "column_sum (snd (cols df ! j)) = 0"
  shows "snd (cols (normalize_by_total df) ! j) =
           map (\<lambda>v. case v of None \<Rightarrow> NaN
                     | Some x \<Rightarrow> if x > 0 then PInf else if x < 0 then NInf else NaN)
               (snd (cols df ! j)) \<and>
         ((\<forall>v \<in> set (snd (cols df ! j)). v = None \<or> v = Some 0) \<longrightarrow>
            (\<forall>w \<in> set (snd (cols (normalize_by_total df) ! j)). w = NaN))"
  using normalize_column_zero [OF assms(2)]
  by (auto simp: normalize_by_total_nth [OF assms(1)])

theorem normalize_by_total_zero_sum_witness:
  "(0::nat) < length (cols c5_neg) \<and> column_sum (snd (cols c5_neg ! 0)) = 0 \<and>
   snd (cols (normalize_by_total c5_neg) ! 0) = [PInf, NInf, NaN] \<and>
   (1::nat) < length (cols c5_df) \<and> column_sum (snd (cols c5_df ! 1)) = 0 \<and>
   snd (cols (normalize_by_total c5_df) ! 1) = [NaN, NaN]"
proof -
  have a: "(0::nat) < length (cols c5_neg)" by (simp add: c5_neg_def)
  have b: "column_sum (snd (cols c5_neg ! 0)) = 0" by (simp add: c5_neg_def column_sum_def)
  have c: "(1::nat) < length (cols c5_df)" by (simp add: c5_df_def)
  have d: "column_sum (snd (cols c5_df ! 1)) = 0" by (simp add: c5_df_def column_sum_def)
  from normalize_by_total_zero_sum [OF a b] normalize_by_total_zero_sum [OF c d] a b c d
  show ?thesis by (simp add: c5_neg_def c5_df_def)
qed

text \<open>
  The claim as stated fails on a column of two zeros and on a column of two missing
  cells: normalize\_by\_total returns a matrix, with NaN in every cell.
\<close>

theorem normalize_by_total_zero_sum_counterexample:
  "column_sum [Some 0, Some 0] = 0 \<and> column_sum [None, None] = 0 \<and>
   normalize_by_total c5_df =
     \<lparr>index = [''Tcr_CD3E_1'', ''CTRL00001''],
      cols = [(''Jurkat_TCR_unstimulated'', [NaN, NaN]),
              (''Jurkat_TCR_stimulated'', [NaN, NaN])]\<rparr>"
  by (simp add: normalize_by_total_def c5_df_def normalize_column_def column_sum_def
        fdiv_def fscale_def)

subsection \<open>The sensitivity score\<close>

lemma Z_nonempty:
  "pos \<noteq> [] \<Longrightarrow> neg \<noteq> [] \<Longrightarrow>
     Z pos neg = one_minus (fdiv (3 * (np_std pos + np_std neg)) \<bar>mean pos - mean neg\<bar>)"
  by (simp add: Z_def)

lemma Z_finite:
  "pos \<noteq> [] \<Longrightarrow> neg \<noteq> [] \<Longrightarrow> mean pos \<noteq> mean neg \<Longrightarrow>
     Z pos neg = Fin (1 - 3 * (np_std pos + np_std neg) / \<bar>mean pos - mean neg\<bar>)"
  by (simp add: Z_def fdiv_def one_minus_def)

lemma c4_pos: "map snd (filter (\<lambda>(g, v). contains ''Essential'' g) c4_series) = [1, 3]"
  by (simp add: c4_series_def str_eval)

lemma c4_neg: "map snd (filter (\<lambda>(g, v). contains ''CTRL'' g) c4_series) = [10, 14]"
  by (simp add: c4_series_def str_eval)

lemma c4_stats: "mean [1, 3] = 2" "np_std [1, 3] = 1" "mean [10, 14] = 12" "np_std [10, 14] = 2"
  by (simp_all add: np_std_def sum_sq_dev_def mean_def)

text \<open>
  C4. With at least one "Essential" row and one "CTRL" row in the series, screen\_zscore
  (without z-scoring, as the script calls it) returns
  \<open>1 - 3 * (std pos + std neg) / \<bar>mean pos - mean neg\<bar>\<close>, the division being the
  floating-point one, and a finite number when the two means differ. The summary row
  holds that score and \<open>1 / - score\<close> as efficiency: for a finite score \<open>z\<close> other than
  zero this is the number \<open>1 / - z\<close>, with the sign inverted.
\<close>

theorem screen_zscore_formula:
  assumes "pos = map snd (filter (\<lambda>(g, v). contains ''Essential'' g) s)"
      and "neg = map snd (filter (\<lambda>(g, v). contains ''CTRL'' g) s)"
      and "pos \<noteq> []" and "neg \<noteq> []"
  shows "screen_zscore zscored s False =
           one_minus (fdiv (3 * (np_std pos + np_std neg)) \<bar>mean pos - mean neg\<bar>) \<and>
         (mean pos \<noteq> mean neg \<longrightarrow>
            screen_zscore zscored s False =
              Fin (1 - 3 * (np_std pos + np_std neg) / \<bar>mean pos - mean neg\<bar>)) \<and>
         zez_row zscored name col s =
           (name, col, screen_zscore zscored s False, efficiency (screen_zscore zscored s False)) \<and>
         (\<forall>z. screen_zscore zscored s False = Fin z \<longrightarrow>
            efficiency (screen_zscore zscored s False) = (if z = 0 then NInf else Fin (1 / - z)))"
proof -
  have e: "screen_zscore zscored s False = Z pos neg"
    by (simp add: screen_zscore_def select_def assms(1,2))
  show ?thesis
    using Z_nonempty [OF assms(3,4)] Z_finite [OF assms(3,4)]
    by (auto simp: e zez_row_def Let_def efficiency_def)
qed

theorem screen_zscore_formula_witness:
  "map snd (filter (\<lambda>(g, v). contains ''Essential'' g) c4_series) = [1, 3] \<and>
   map snd (filter (\<lambda>(g, v). contains ''CTRL'' g) c4_series) = [10, 14] \<and>
   [1, 3] \<noteq> ([] :: real list) \<and> [10, 14] \<noteq> ([] :: real list) \<and>
   mean [1, 3] \<noteq> mean [10, 14] \<and>
   screen_zscore (\<lambda>s. None) c4_series False = Fin (1 / 10) \<and>
   zez_row (\<lambda>s. None) ''crop_screen'' ''Jurkat_TCR_stimulated'' c4_series =
     (''crop_screen'', ''Jurkat_TCR_stimulated'', Fin (1 / 10), Fin (- 10))"
proof -
  have ne: "[1, 3] \<noteq> ([] :: real list)" "[10, 14] \<noteq> ([] :: real list)" by simp_all
  from screen_zscore_formula [OF c4_pos [symmetric] c4_neg [symmetric] ne,
      of "\<lambda>s. None" "''crop_screen''" "''Jurkat_TCR_stimulated''"]
  show ?thesis
    by (simp add: c4_pos c4_neg c4_stats efficiency_def fdiv_def one_minus_def)
qed

text \<open>
  In exact arithmetic the score does not change when all values go through the same
  map \<open>x \<mapsto> (x - m) / d\<close> with \<open>d > 0\<close>: the standard deviations and the
  difference of the means are both divided by \<open>d\<close>. Line 97 computes such a map in
  floating point, where every operation rounds; the lemmas say what the score would be
  without rounding, and nothing about the digits of the two floating-point results.
\<close>

lemma mean_affine:
  assumes "xs \<noteq> []"
  shows "mean (map (\<lambda>x. (x - m) / d) xs) = (mean xs - m) / d"
proof -
  have "sum_list (map (\<lambda>x. (x - m) / d) xs) = (sum_list xs - real (length xs) * m) / d"
    by (induction xs) (simp_all add: add_divide_distrib diff_divide_distrib algebra_simps)
  with assms show ?thesis
    by (simp add: mean_def field_simps)
qed

lemma sum_sq_dev_affine:
  assumes "xs \<noteq> []"
  shows "sum_sq_dev (map (\<lambda>x. (x - m) / d) xs) = sum_sq_dev xs / d\<^sup>2"
proof -
  have "sum_list (map (\<lambda>x. ((x - m) / d - (c - m) / d)\<^sup>2) xs) =
          sum_list (map (\<lambda>x. (x - c)\<^sup>2) xs) / d\<^sup>2" for c
    by (induction xs)
       (simp_all add: add_divide_distrib diff_divide_distrib [symmetric] power_divide)
  then show ?thesis
    by (simp add: sum_sq_dev_def mean_affine [OF assms] o_def)
qed

lemma np_std_affine:
  assumes "xs \<noteq> []" "0 < d"
  shows "np_std (map (\<lambda>x. (x - m) / d) xs) = np_std xs / d"
proof -
  have "sum_sq_dev xs / d\<^sup>2 / real (length xs) = sum_sq_dev xs / real (length xs) / d\<^sup>2"
    by (simp add: divide_divide_eq_left mult.commute)
  then have "np_std (map (\<lambda>x. (x - m) / d) xs) = sqrt (sum_sq_dev xs / real (length xs) / d\<^sup>2)"
    by (simp add: np_std_def sum_sq_dev_affine [OF assms(1)])
  also have "\<dots> = sqrt (sum_sq_dev xs / real (length xs)) / \<bar>d\<bar>"
    by (simp only: real_sqrt_divide real_sqrt_abs)
  finally show ?thesis using assms(2) by (simp add: np_std_def)
qed

lemma fdiv_scaled:
  assumes "0 < d"
  shows "fdiv (t / d) (u / d) = fdiv t u"
  using assms by (auto simp: fdiv_def field_simps)

lemma Z_affine:
  assumes "0 < d"
  shows "Z (map (\<lambda>x. (x - m) / d) pos) (map (\<lambda>x. (x - m) / d) neg) = Z pos neg"
proof (cases "pos = [] \<or> neg = []")
  case True
  then show ?thesis by (auto simp: Z_def)
next
  case False
  then have p: "pos \<noteq> []" and n: "neg \<noteq> []" by simp_all
  have t: "3 * (np_std (map (\<lambda>x. (x - m) / d) pos) + np_std (map (\<lambda>x. (x - m) / d) neg)) =
             (3 * (np_std pos + np_std neg)) / d"
    by (simp add: np_std_affine [OF p assms] np_std_affine [OF n assms] add_divide_distrib)
  have u: "\<bar>mean (map (\<lambda>x. (x - m) / d) pos) - mean (map (\<lambda>x. (x - m) / d) neg)\<bar> =
             \<bar>mean pos - mean neg\<bar> / d"
    using assms
    by (simp add: mean_affine [OF p] mean_affine [OF n] diff_divide_distrib [symmetric])
  show ?thesis
    unfolding Z_def t u fdiv_scaled [OF assms] using p n by simp
qed

lemma select_map_values:
  "select pat (map (\<lambda>(g, x). (g, f x)) s) = map f (select pat s)"
  by (induction s) (auto simp: select_def)

lemma screen_zscore_exact_zscoring:
  assumes "0 < d" and "zscored s = Some (map (\<lambda>(g, x). (g, (x - m) / d)) s)"
  shows "screen_zscore zscored s True = screen_zscore zscored s False"
  by (simp add: screen_zscore_def assms(2) select_map_values Z_affine [OF assms(1)])

subsection \<open>The colour assignment\<close>

lemma color_of_first_match:
  "color_of g =
     (if contains ''Wnt'' g then Inr Color0
      else if contains ''CTRL'' g then Inr Color1
      else if contains ''Tcr'' g then Inr Color2
      else if contains ''Ess'' g then Inr Color3
      else Inl IndexError)"
  by (simp add: color_of_def color_flags_def)

lemma color_of_error: "color_of g = Inl e \<Longrightarrow> e = IndexError"
  by (auto simp: color_of_first_match split: if_splits)

lemma apply_rows_Inl_source:
  "apply_rows f xs = Inl e \<Longrightarrow> \<exists>x \<in> set xs. f x = Inl e"
proof (induction xs)
  case Nil
  then show ?case by simp
next
  case (Cons x xs)
  show ?case
  proof (cases "f x")
    case (Inl a)
    with Cons.prems show ?thesis by simp
  next
    case (Inr y)
    with Cons.prems have "apply_rows f xs = Inl e"
      by (simp split: sum.splits)
    with Cons.IH show ?thesis by simp
  qed
qed

lemma apply_rows_fails:
  "x \<in> set xs \<Longrightarrow> f x = Inl e \<Longrightarrow> \<exists>e'. apply_rows f xs = Inl e'"
proof (induction xs)
  case Nil
  then show ?case by simp
next
  case (Cons y ys)
  show ?case
  proof (cases "f y")
    case (Inl a)
    then show ?thesis by simp
  next
    case (Inr b)
    with Cons.prems have "x \<in> set ys" by auto
    with Cons.IH Cons.prems(2) obtain e' where "apply_rows f ys = Inl e'" by blast
    with Inr show ?thesis by simp
  qed
qed

lemma apply_rows_succeeds:
  "\<forall>x \<in> set xs. \<exists>y. f x = Inr y \<Longrightarrow>
     \<exists>ys. apply_rows f xs = Inr ys \<and> map f xs = map Inr ys"
  by (induction xs) (auto split: sum.splits)

lemma set_iloc:
  assumes "is_permutation perm (length xs)"
  shows "set (iloc perm xs) = set xs"
proof -
  have "set (iloc perm xs) = (\<lambda>i. xs ! i) ` {0..<length xs}"
    using assms by (simp add: iloc_def is_permutation_def)
  also have "\<dots> = set xs"
    by (simp add: nth_image)
  finally show ?thesis .
qed

lemma keep_row_other: "\<not> contains ''Wnt'' g \<Longrightarrow> \<not> contains ''Tcr'' g \<Longrightarrow> keep_row pfx screen g"
  by (simp add: keep_row_def)

lemma color_of_has_category: "has_category g \<Longrightarrow> color_of g = Inr (first_category g)"
  unfolding has_category_def first_category_def color_of_first_match by auto

lemma color_of_no_category: "\<not> has_category g \<Longrightarrow> color_of g = Inl IndexError"
  unfolding has_category_def color_of_first_match by simp

lemma keep_row_no_category: "\<not> has_category g \<Longrightarrow> keep_row pfx screen g"
  unfolding has_category_def by (simp add: keep_row_other)

lemma apply_rows_all_Inr:
  "\<forall>x \<in> set xs. f x = Inr (h x) \<Longrightarrow> apply_rows f xs = Inr (map h xs)"
  by (induction xs) simp_all

lemma color_of_cases:
  "color_of g = (if has_category g then Inr (first_category g) else Inl IndexError)"
  by (simp add: color_of_has_category color_of_no_category)

lemma assign_colors_fails:
  assumes "g \<in> set rows" and "\<not> has_category g"
  shows "assign_colors rows = Inl IndexError"
proof -
  from assms(1) have ne: "rows \<noteq> []" by auto
  from apply_rows_fails [of g rows color_of IndexError, OF assms(1) color_of_no_category [OF assms(2)]]
  obtain e' where e': "apply_rows color_of rows = Inl e'" by blast
  from apply_rows_Inl_source [OF e'] obtain x where "color_of x = Inl e'" by blast
  then have "e' = IndexError" by (rule color_of_error)
  with e' ne show ?thesis by (simp add: assign_colors_def)
qed

lemma assign_colors_succeeds:
  assumes "rows \<noteq> []" and "\<forall>g \<in> set rows. has_category g"
  shows "assign_colors rows = Inr (map first_category rows)"
proof -
  have "\<forall>g \<in> set rows. color_of g = Inr (first_category g)"
    using assms(2) by (simp add: color_of_has_category)
  then have "apply_rows color_of rows = Inr (map first_category rows)"
    by (rule apply_rows_all_Inr)
  with assms(1) show ?thesis by (simp add: assign_colors_def)
qed

lemma assign_colors_nonempty:
  assumes "rows \<noteq> []"
  shows "assign_colors rows =
           (if \<forall>g \<in> set rows. has_category g then Inr (map first_category rows)
            else Inl IndexError)"
proof (cases "\<forall>g \<in> set rows. has_category g")
  case True
  then show ?thesis by (simp add: assign_colors_succeeds [OF assms])
next
  case False
  then obtain g where "g \<in> set rows" "\<not> has_category g" by blast
  from assign_colors_fails [OF this] False show ?thesis by simp
qed

lemma kept_no_category:
  assumes "is_permutation perm (length idx)" and "g \<in> set idx" and "\<not> has_category g"
  shows "g \<in> set (filter (keep_row pfx screen) (iloc perm idx))"
proof -
  from assms(2) have "g \<in> set (iloc perm idx)" by (simp add: set_iloc [OF assms(1)])
  with keep_row_no_category [OF assms(3)] show ?thesis by simp
qed

lemma kept_all_category:
  assumes "is_permutation perm (length idx)" and "\<forall>g \<in> set idx. has_category g"
  shows "\<forall>g \<in> set (filter (keep_row pfx screen) (iloc perm idx)). has_category g"
  using assms(2) by (simp add: set_iloc [OF assms(1)])

lemma iloc_map:
  assumes "is_permutation perm (length xs)"
  shows "iloc perm (map f xs) = map f (iloc perm xs)"
proof -
  from assms have "\<forall>i \<in> set perm. i < length xs" by (simp add: is_permutation_def)
  then show ?thesis by (simp add: iloc_def)
qed

lemma kept_guides:
  assumes "is_permutation perm (length joined)"
  shows "map fst (filter (\<lambda>(g, v). keep_row pfx screen g) (iloc perm joined)) =
           filter (keep_row pfx screen) (iloc perm (map fst joined))"
  by (simp add: iloc_map [OF assms] filter_map o_def case_prod_unfold)

lemma gRNA_scatter_screen_no_category:
  assumes "is_permutation perm (length idx)" and "g \<in> set idx" and "\<not> has_category g"
  shows "gRNA_scatter_screen i perm columns b_bound pfx screen idx =
           (if set (reference_columns pfx screen) \<subseteq> set columns then Inl IndexError
            else Inl KeyError)"
  by (simp add: gRNA_scatter_screen_def Let_def
      assign_colors_fails [OF kept_no_category [OF assms] assms(3)])

lemma gRNA_maplot_screen_no_category:
  assumes "is_permutation perm (length idx)" and "g \<in> set idx" and "\<not> has_category g"
  shows "gRNA_maplot_screen i perm columns fc_bound pfx screen idx =
           (if \<not> set (reference_columns pfx screen) \<subseteq> set columns then Inl KeyError
            else if reference_columns pfx screen = [] \<and> \<not> fc_bound then Inl UnboundLocalError
            else Inl IndexError)"
  by (simp add: gRNA_maplot_screen_def Let_def
      assign_colors_fails [OF kept_no_category [OF assms] assms(3)])

lemma gRNA_rank_screen_no_category:
  assumes "is_permutation perm (length joined)" and "g \<in> set (map fst joined)"
      and "\<not> has_category g"
  shows "gRNA_rank_screen i perm columns fc_prev pfx screen joined =
           (if \<not> set (reference_columns pfx screen) \<subseteq> set columns then Inl KeyError
            else if reference_columns pfx screen = [] \<and> fc_prev = None then Inl UnboundLocalError
            else Inl IndexError)"
proof -
  have p: "is_permutation perm (length (map fst joined))" using assms(1) by simp
  have "assign_colors (map fst (filter (\<lambda>(g, v). keep_row pfx screen g) (iloc perm joined)))
          = Inl IndexError"
    unfolding kept_guides [OF assms(1)]
    by (rule assign_colors_fails [OF kept_no_category [OF p assms(2,3)] assms(3)])
  then show ?thesis
    by (auto simp: gRNA_rank_screen_def Let_def split: option.splits)
qed

lemma gRNA_scatter_screen_colours:
  assumes "set (reference_columns pfx screen) \<subseteq> set columns" and "i < 6"
      and "reference_columns pfx screen \<noteq> [] \<or> b_bound"
      and "filter (keep_row pfx screen) (iloc perm idx) \<noteq> []"
      and "\<forall>g \<in> set (filter (keep_row pfx screen) (iloc perm idx)). has_category g"
  shows "gRNA_scatter_screen i perm columns b_bound pfx screen idx =
           Inr (map first_category (filter (keep_row pfx screen) (iloc perm idx)))"
  using assms(1,2,3)
  by (auto simp: gRNA_scatter_screen_def Let_def assign_colors_succeeds [OF assms(4,5)])

lemma gRNA_maplot_screen_colours:
  assumes "set (reference_columns pfx screen) \<subseteq> set columns" and "i < 6"
      and "reference_columns pfx screen \<noteq> [] \<or> fc_bound"
      and "filter (keep_row pfx screen) (iloc perm idx) \<noteq> []"
      and "\<forall>g \<in> set (filter (keep_row pfx screen) (iloc perm idx)). has_category g"
  shows "gRNA_maplot_screen i perm columns fc_bound pfx screen idx =
           Inr (map first_category (filter (keep_row pfx screen) (iloc perm idx)))"
  using assms(1,2,3)
  by (auto simp: gRNA_maplot_screen_def Let_def assign_colors_succeeds [OF assms(4,5)])

lemma gRNA_rank_screen_colours:
  assumes "set (reference_columns pfx screen) \<subseteq> set columns" and "i < 6"
      and "reference_columns pfx screen \<noteq> []"
      and "x = filter (\<lambda>(g, v). keep_row pfx screen g) (iloc perm joined)"
      and "x \<noteq> []" and "\<forall>g \<in> set (map fst x). has_category g"
  shows "gRNA_rank_screen i perm columns fc_prev pfx screen joined =
           Inr (map first_category (map fst x), zip (map fst x) (rank_desc_first (map snd x)))"
proof -
  from assms(5) have ne: "map fst x \<noteq> []" by simp
  show ?thesis
    using assms(1,2,3)
    by (simp add: gRNA_rank_screen_def Let_def assms(4) [symmetric]
        assign_colors_succeeds [OF ne assms(6)])
qed

lemma gRNA_scatter_first_fails:
  "gRNA_scatter_screen 0 perm columns False pfx screen idx = Inl e \<Longrightarrow>
     gRNA_scatter columns pfx idx ((screen, perm) # rest) = Inl e"
  by (simp add: gRNA_scatter_def)

lemma gRNA_maplot_first_fails:
  "gRNA_maplot_screen 0 perm columns False pfx screen idx = Inl e \<Longrightarrow>
     gRNA_maplot columns pfx idx ((screen, perm) # rest) = Inl e"
  by (simp add: gRNA_maplot_def)

lemma gRNA_rank_first_fails:
  "gRNA_rank_screen 0 perm columns None pfx screen joined = Inl e \<Longrightarrow>
     gRNA_rank columns pfx ((screen, perm, joined) # passes) = Inl e"
  by (simp add: gRNA_rank_def)

lemma gRNA_scatter_single:
  "gRNA_scatter_screen 0 perm columns False pfx screen idx = Inr r \<Longrightarrow>
     gRNA_scatter columns pfx idx [(screen, perm)] = Inr [r]"
  by (simp add: gRNA_scatter_def)

lemma gRNA_maplot_single:
  "gRNA_maplot_screen 0 perm columns False pfx screen idx = Inr r \<Longrightarrow>
     gRNA_maplot columns pfx idx [(screen, perm)] = Inr [r]"
  by (simp add: gRNA_maplot_def)


text \<open>
  C10. The colour assignment is total only on guides whose id contains "Wnt", "CTRL",
  "Tcr" or "Ess": for one guide it gives the first of the four that occurs, in this
  order, and raises IndexError when none occurs; on a list of rows with a guide without
  any of them it raises IndexError. So when the joined table has such a guide, no pass of
  gRNA\_scatter, gRNA\_maplot or gRNA\_rank produces colours: the colour assignment is
  reached unless a reference column is missing (KeyError) or, in gRNA\_maplot and
  gRNA\_rank, \<open>fc\<close> is unbound, and it fails with IndexError. The three functions
  fail so in their first pass, whatever the screens after it. When every guide has one of
  the four, the rows kept are not empty and the pass gets as far, the colours are the
  first categories of the kept rows.
\<close>

theorem color_assignment_partial:
  assumes "is_permutation perm (length joined)" and "idx = map fst joined"
  shows "color_of g = (if has_category g then Inr (first_category g) else Inl IndexError) \<and>
         (rows \<noteq> [] \<longrightarrow>
            assign_colors rows =
              (if \<forall>g \<in> set rows. has_category g then Inr (map first_category rows)
               else Inl IndexError)) \<and>
         ((\<exists>g \<in> set idx. \<not> has_category g) \<longrightarrow>
            gRNA_scatter_screen i perm columns b_bound pfx screen idx =
              (if set (reference_columns pfx screen) \<subseteq> set columns then Inl IndexError
               else Inl KeyError) \<and>
            gRNA_maplot_screen i perm columns fc_bound pfx screen idx =
              (if \<not> set (reference_columns pfx screen) \<subseteq> set columns then Inl KeyError
               else if reference_columns pfx screen = [] \<and> \<not> fc_bound then Inl UnboundLocalError
               else Inl IndexError) \<and>
            gRNA_rank_screen i perm columns fc_prev pfx screen joined =
              (if \<not> set (reference_columns pfx screen) \<subseteq> set columns then Inl KeyError
               else if reference_columns pfx screen = [] \<and> fc_prev = None then Inl UnboundLocalError
               else Inl IndexError) \<and>
            gRNA_scatter columns pfx idx ((screen, perm) # rest) =
              (if set (reference_columns pfx screen) \<subseteq> set columns then Inl IndexError
               else Inl KeyError) \<and>
            gRNA_maplot columns pfx idx ((screen, perm) # rest) =
              (if \<not> set (reference_columns pfx screen) \<subseteq> set columns then Inl KeyError
               else if reference_columns pfx screen = [] then Inl UnboundLocalError
               else Inl IndexError) \<and>
            gRNA_rank columns pfx ((screen, perm, joined) # passes) =
              (if \<not> set (reference_columns pfx screen) \<subseteq> set columns then Inl KeyError
               else if reference_columns pfx screen = [] then Inl UnboundLocalError
               else Inl IndexError)) \<and>
         ((\<forall>g \<in> set idx. has_category g) \<and>
          set (reference_columns pfx screen) \<subseteq> set columns \<and>
          reference_columns pfx screen \<noteq> [] \<and> i < 6 \<and>
          filter (keep_row pfx screen) (iloc perm idx) \<noteq> [] \<longrightarrow>
            gRNA_scatter_screen i perm columns b_bound pfx screen idx =
              Inr (map first_category (filter (keep_row pfx screen) (iloc perm idx))) \<and>
            gRNA_maplot_screen i perm columns fc_bound pfx screen idx =
              Inr (map first_category (filter (keep_row pfx screen) (iloc perm idx))) \<and>
            (\<exists>ranks. gRNA_rank_screen i perm columns fc_prev pfx screen joined =
              Inr (map first_category (filter (keep_row pfx screen) (iloc perm idx)), ranks)))"
proof (intro conjI impI)
  show "color_of g = (if has_category g then Inr (first_category g) else Inl IndexError)"
    by (rule color_of_cases)
next
  assume "rows \<noteq> []"
  then show "assign_colors rows =
              (if \<forall>g \<in> set rows. has_category g then Inr (map first_category rows)
               else Inl IndexError)"
    by (rule assign_colors_nonempty)
next
  have p: "is_permutation perm (length idx)" using assms by simp
  assume "\<exists>g \<in> set idx. \<not> has_category g"
  then obtain g where g: "g \<in> set idx" "\<not> has_category g" by blast
  show "gRNA_scatter_screen i perm columns b_bound pfx screen idx =
              (if set (reference_columns pfx screen) \<subseteq> set columns then Inl IndexError
               else Inl KeyError)"
    by (rule gRNA_scatter_screen_no_category [OF p g])
  show "gRNA_maplot_screen i perm columns fc_bound pfx screen idx =
              (if \<not> set (reference_columns pfx screen) \<subseteq> set columns then Inl KeyError
               else if reference_columns pfx screen = [] \<and> \<not> fc_bound then Inl UnboundLocalError
               else Inl IndexError)"
    by (rule gRNA_maplot_screen_no_category [OF p g])
  from g have gj: "g \<in> set (map fst joined)" by (simp add: assms(2))
  show "gRNA_rank_screen i perm columns fc_prev pfx screen joined =
              (if \<not> set (reference_columns pfx screen) \<subseteq> set columns then Inl KeyError
               else if reference_columns pfx screen = [] \<and> fc_prev = None then Inl UnboundLocalError
               else Inl IndexError)"
    by (rule gRNA_rank_screen_no_category [OF assms(1) gj g(2)])
  show "gRNA_scatter columns pfx idx ((screen, perm) # rest) =
              (if set (reference_columns pfx screen) \<subseteq> set columns then Inl IndexError
               else Inl KeyError)"
  proof (cases "set (reference_columns pfx screen) \<subseteq> set columns")
    case True
    with gRNA_scatter_screen_no_category [OF p g, of 0 columns False pfx screen]
    have "gRNA_scatter_screen 0 perm columns False pfx screen idx = Inl IndexError" by simp
    from gRNA_scatter_first_fails [OF this] True show ?thesis by simp
  next
    case False
    with gRNA_scatter_screen_no_category [OF p g, of 0 columns False pfx screen]
    have "gRNA_scatter_screen 0 perm columns False pfx screen idx = Inl KeyError" by simp
    from gRNA_scatter_first_fails [OF this] False show ?thesis by simp
  qed
  show "gRNA_maplot columns pfx idx ((screen, perm) # rest) =
              (if \<not> set (reference_columns pfx screen) \<subseteq> set columns then Inl KeyError
               else if reference_columns pfx screen = [] then Inl UnboundLocalError
               else Inl IndexError)"
  proof -
    let ?e = "if \<not> set (reference_columns pfx screen) \<subseteq> set columns then KeyError
              else if reference_columns pfx screen = [] then UnboundLocalError
              else IndexError"
    from gRNA_maplot_screen_no_category [OF p g, of 0 columns False pfx screen]
    have "gRNA_maplot_screen 0 perm columns False pfx screen idx = Inl ?e" by simp
    from gRNA_maplot_first_fails [OF this] show ?thesis by simp
  qed
  show "gRNA_rank columns pfx ((screen, perm, joined) # passes) =
              (if \<not> set (reference_columns pfx screen) \<subseteq> set columns then Inl KeyError
               else if reference_columns pfx screen = [] then Inl UnboundLocalError
               else Inl IndexError)"
  proof -
    let ?e = "if \<not> set (reference_columns pfx screen) \<subseteq> set columns then KeyError
              else if reference_columns pfx screen = [] then UnboundLocalError
              else IndexError"
    from gRNA_rank_screen_no_category [OF assms(1) gj g(2), of 0 columns None pfx screen]
    have "gRNA_rank_screen 0 perm columns None pfx screen joined = Inl ?e" by simp
    from gRNA_rank_first_fails [OF this] show ?thesis by simp
  qed
next
  have p: "is_permutation perm (length idx)" using assms by simp
  assume a: "(\<forall>g \<in> set idx. has_category g) \<and>
          set (reference_columns pfx screen) \<subseteq> set columns \<and>
          reference_columns pfx screen \<noteq> [] \<and> i < 6 \<and>
          filter (keep_row pfx screen) (iloc perm idx) \<noteq> []"
  then have all: "\<forall>g \<in> set idx. has_category g"
    and c: "set (reference_columns pfx screen) \<subseteq> set columns"
    and r: "reference_columns pfx screen \<noteq> []" and i: "i < 6"
    and ne: "filter (keep_row pfx screen) (iloc perm idx) \<noteq> []"
    by blast+
  note k = kept_all_category [OF p all, of pfx screen]
  from r have rb: "reference_columns pfx screen \<noteq> [] \<or> b_bound"
    and rf: "reference_columns pfx screen \<noteq> [] \<or> fc_bound" by simp_all
  show "gRNA_scatter_screen i perm columns b_bound pfx screen idx =
              Inr (map first_category (filter (keep_row pfx screen) (iloc perm idx)))"
    by (rule gRNA_scatter_screen_colours [OF c i rb ne k])
  show "gRNA_maplot_screen i perm columns fc_bound pfx screen idx =
              Inr (map first_category (filter (keep_row pfx screen) (iloc perm idx)))"
    by (rule gRNA_maplot_screen_colours [OF c i rf ne k])
  define x where "x = filter (\<lambda>(g, v). keep_row pfx screen g) (iloc perm joined)"
  have gx: "map fst x = filter (keep_row pfx screen) (iloc perm idx)"
    unfolding x_def assms(2) by (rule kept_guides [OF assms(1)])
  from ne gx have xne: "x \<noteq> []" by auto
  from k gx have xc: "\<forall>g \<in> set (map fst x). has_category g" by simp
  from gRNA_rank_screen_colours [OF c i r x_def xne xc, of fc_prev]
  show "\<exists>ranks. gRNA_rank_screen i perm columns fc_prev pfx screen joined =
              Inr (map first_category (filter (keep_row pfx screen) (iloc perm idx)), ranks)"
    unfolding gx by blast
qed

lemma c10_refs:
  "reference_columns ''mid_screen-crop_screen'' ''CROP-seq_Jurkat_TCR_stimulated'' = [''gDNA_Jurkat'']"
proof -
  have "\<not> contains ''original'' ''mid_screen-crop_screen''"
       "\<not> contains ''plasmid'' ''mid_screen-crop_screen''"
       "contains ''TCR'' ''CROP-seq_Jurkat_TCR_stimulated''"
       "\<not> contains ''_4_WNT'' ''CROP-seq_Jurkat_TCR_stimulated''"
       "\<not> contains ''_6_WNT'' ''CROP-seq_Jurkat_TCR_stimulated''"
    by (simp_all add: str_eval)
  then show ?thesis by (simp add: reference_columns_def)
qed

lemma c10_keep:
  "keep_row ''mid_screen-crop_screen'' ''CROP-seq_Jurkat_TCR_stimulated'' g = (\<not> contains ''Wnt'' g)"
proof -
  have "\<not> contains ''original'' ''mid_screen-crop_screen''"
       "\<not> contains ''plasmid'' ''mid_screen-crop_screen''"
       "contains ''TCR'' ''CROP-seq_Jurkat_TCR_stimulated''"
       "\<not> contains ''_4_WNT'' ''CROP-seq_Jurkat_TCR_stimulated''"
       "\<not> contains ''_6_WNT'' ''CROP-seq_Jurkat_TCR_stimulated''"
    by (simp_all add: str_eval)
  then show ?thesis by (simp add: keep_row_def)
qed

lemma c10_refs_present:
  "set (reference_columns ''mid_screen-crop_screen'' ''CROP-seq_Jurkat_TCR_stimulated'')
     \<subseteq> set c10_columns"
  by (simp add: c10_refs c10_columns_def)

lemma c10_categories:
  "\<not> has_category ''MBD1_sg1''" "has_category ''Tcr_CD3E_1''"
  "has_category ''Essential_library_CTRL_mix''" "has_category ''CTRL00001''"
  "first_category ''Tcr_CD3E_1'' = Color2"
  "first_category ''Essential_library_CTRL_mix'' = Color1"
  "first_category ''CTRL00001'' = Color1"
  by (simp_all add: has_category_def first_category_def str_eval)

lemma c10_kept_ok:
  "filter (keep_row ''mid_screen-crop_screen'' ''CROP-seq_Jurkat_TCR_stimulated'')
     (iloc [2, 0, 1] c10_ok) = [''CTRL00001'', ''Tcr_CD3E_1'', ''Essential_library_CTRL_mix'']"
  by (simp add: c10_ok_def iloc_def c10_keep) (simp add: str_eval)

theorem color_assignment_partial_witness:
  "is_permutation [2, 0, 1] (length (map (\<lambda>g. (g, Some (1::real))) c10_idx)) \<and>
   c10_idx = map fst (map (\<lambda>g. (g, Some (1::real))) c10_idx) \<and>
   \<not> has_category ''MBD1_sg1'' \<and>
   set (reference_columns ''mid_screen-crop_screen'' ''CROP-seq_Jurkat_TCR_stimulated'')
     \<subseteq> set c10_columns \<and>
   gRNA_scatter_screen 0 [2, 0, 1] c10_columns False ''mid_screen-crop_screen''
     ''CROP-seq_Jurkat_TCR_stimulated'' c10_idx = Inl IndexError \<and>
   gRNA_maplot_screen 0 [2, 0, 1] c10_columns False ''mid_screen-crop_screen''
     ''CROP-seq_Jurkat_TCR_stimulated'' c10_idx = Inl IndexError \<and>
   gRNA_rank_screen 0 [2, 0, 1] c10_columns None ''mid_screen-crop_screen''
     ''CROP-seq_Jurkat_TCR_stimulated'' (map (\<lambda>g. (g, Some 1)) c10_idx) = Inl IndexError \<and>
   gRNA_scatter c10_columns ''mid_screen-crop_screen'' c10_idx
     [(''CROP-seq_Jurkat_TCR_stimulated'', [2, 0, 1])] = Inl IndexError \<and>
   gRNA_maplot c10_columns ''mid_screen-crop_screen'' c10_idx
     [(''CROP-seq_Jurkat_TCR_stimulated'', [2, 0, 1])] = Inl IndexError \<and>
   gRNA_rank c10_columns ''mid_screen-crop_screen''
     [(''CROP-seq_Jurkat_TCR_stimulated'', [2, 0, 1], map (\<lambda>g. (g, Some 1)) c10_idx)]
       = Inl IndexError \<and>
   gRNA_scatter_screen 0 [2, 0, 1] c10_columns False ''mid_screen-crop_screen''
     ''CROP-seq_Jurkat_TCR_stimulated'' c10_ok = Inr [Color1, Color2, Color1] \<and>
   gRNA_maplot_screen 0 [2, 0, 1] c10_columns False ''mid_screen-crop_screen''
     ''CROP-seq_Jurkat_TCR_stimulated'' c10_ok = Inr [Color1, Color2, Color1]"
proof -
  let ?joined = "map (\<lambda>g. (g, Some (1::real))) c10_idx"
  let ?joined_ok = "map (\<lambda>g. (g, Some (1::real))) c10_ok"
  have p: "is_permutation [2, 0, 1] (length ?joined)"
    by (auto simp: is_permutation_def c10_idx_def)
  have q: "c10_idx = map fst ?joined" by (simp add: o_def)
  have p': "is_permutation [2, 0, 1] (length ?joined_ok)"
    by (auto simp: is_permutation_def c10_ok_def)
  have q': "c10_ok = map fst ?joined_ok" by (simp add: o_def)
  have m: "\<exists>g \<in> set c10_idx. \<not> has_category g"
    by (rule bexI [of _ "''MBD1_sg1''"]) (simp_all add: c10_categories c10_idx_def)
  have all: "\<forall>g \<in> set c10_ok. has_category g"
    by (simp add: c10_ok_def c10_categories)
  note t = color_assignment_partial [OF p q, where i = 0 and columns = c10_columns
      and b_bound = False and fc_bound = False and fc_prev = None
      and pfx = "''mid_screen-crop_screen''" and screen = "''CROP-seq_Jurkat_TCR_stimulated''"
      and rest = "[]" and passes = "[]"]
  note bad = t [THEN conjunct2, THEN conjunct2, THEN conjunct1, THEN mp, OF m]
  note t' = color_assignment_partial [OF p' q', where i = 0 and columns = c10_columns
      and b_bound = False and fc_bound = False and fc_prev = None
      and pfx = "''mid_screen-crop_screen''" and screen = "''CROP-seq_Jurkat_TCR_stimulated''"]
  have pre: "(\<forall>g \<in> set c10_ok. has_category g) \<and>
      set (reference_columns ''mid_screen-crop_screen'' ''CROP-seq_Jurkat_TCR_stimulated'')
        \<subseteq> set c10_columns \<and>
      reference_columns ''mid_screen-crop_screen'' ''CROP-seq_Jurkat_TCR_stimulated'' \<noteq> [] \<and>
      (0::nat) < 6 \<and>
      filter (keep_row ''mid_screen-crop_screen'' ''CROP-seq_Jurkat_TCR_stimulated'')
        (iloc [2, 0, 1] c10_ok) \<noteq> []"
  proof -
    have ne: "filter (keep_row ''mid_screen-crop_screen'' ''CROP-seq_Jurkat_TCR_stimulated'')
        (iloc [2, 0, 1] c10_ok) \<noteq> []"
      unfolding c10_kept_ok by simp
    have rne: "reference_columns ''mid_screen-crop_screen'' ''CROP-seq_Jurkat_TCR_stimulated'' \<noteq> []"
      unfolding c10_refs by simp
    have six: "(0::nat) < 6" by simp
    from all c10_refs_present rne six ne show ?thesis by (intro conjI)
  qed
  note good = t' [THEN conjunct2, THEN conjunct2, THEN conjunct2, THEN mp, OF pre]
  have n: "\<not> has_category ''MBD1_sg1''" by (simp add: c10_categories)
  have b1: "gRNA_scatter_screen 0 [2, 0, 1] c10_columns False ''mid_screen-crop_screen''
     ''CROP-seq_Jurkat_TCR_stimulated'' c10_idx = Inl IndexError"
    using bad [THEN conjunct1] c10_refs_present by simp
  have b2: "gRNA_maplot_screen 0 [2, 0, 1] c10_columns False ''mid_screen-crop_screen''
     ''CROP-seq_Jurkat_TCR_stimulated'' c10_idx = Inl IndexError"
    using bad [THEN conjunct2, THEN conjunct1] c10_refs_present by (simp add: c10_refs)
  have b3: "gRNA_rank_screen 0 [2, 0, 1] c10_columns None ''mid_screen-crop_screen''
     ''CROP-seq_Jurkat_TCR_stimulated'' (map (\<lambda>g. (g, Some 1)) c10_idx) = Inl IndexError"
    using bad [THEN conjunct2, THEN conjunct2, THEN conjunct1] c10_refs_present
    by (simp add: c10_refs)
  have l1: "gRNA_scatter c10_columns ''mid_screen-crop_screen'' c10_idx
     [(''CROP-seq_Jurkat_TCR_stimulated'', [2, 0, 1])] = Inl IndexError"
    using bad [THEN conjunct2, THEN conjunct2, THEN conjunct2, THEN conjunct1] c10_refs_present
    by simp
  have l2: "gRNA_maplot c10_columns ''mid_screen-crop_screen'' c10_idx
     [(''CROP-seq_Jurkat_TCR_stimulated'', [2, 0, 1])] = Inl IndexError"
    using bad [THEN conjunct2, THEN conjunct2, THEN conjunct2, THEN conjunct2, THEN conjunct1]
      c10_refs_present
    by (simp add: c10_refs)
  have l3: "gRNA_rank c10_columns ''mid_screen-crop_screen''
     [(''CROP-seq_Jurkat_TCR_stimulated'', [2, 0, 1], map (\<lambda>g. (g, Some 1)) c10_idx)]
       = Inl IndexError"
    using bad [THEN conjunct2, THEN conjunct2, THEN conjunct2, THEN conjunct2, THEN conjunct2]
      c10_refs_present
    by (simp add: c10_refs)
  have g1: "gRNA_scatter_screen 0 [2, 0, 1] c10_columns False ''mid_screen-crop_screen''
     ''CROP-seq_Jurkat_TCR_stimulated'' c10_ok = Inr [Color1, Color2, Color1]"
    using good [THEN conjunct1] unfolding c10_kept_ok by (simp add: c10_categories)
  have g2: "gRNA_maplot_screen 0 [2, 0, 1] c10_columns False ''mid_screen-crop_screen''
     ''CROP-seq_Jurkat_TCR_stimulated'' c10_ok = Inr [Color1, Color2, Color1]"
    using good [THEN conjunct2, THEN conjunct1] unfolding c10_kept_ok
    by (simp add: c10_categories)
  from p q n c10_refs_present b1 b2 b3 l1 l2 l3 g1 g2
  show ?thesis by (intro conjI) assumption+
qed

subsection \<open>The ranks\<close>



































end
